theory Spec2Isabelle
  imports Complex_Main "HOL-Library.AList"
begin

section \<open>Python values\<close>

text \<open>
  The two scripts are dynamically typed, so the embedding works on one type of Python
  values: the values a JSON document denotes (\<open>None\<close>, booleans, integers, finite floats
  given by their exact rational value, strings, lists, dictionaries with string keys) and
  live objects of the external agent library. A dictionary is an association list in
  insertion order, which is the order Python keeps and \<open>json.dump\<close> writes. A live object
  is the name of its class with the arguments its constructor received.
\<close>

datatype pyval =
    PNone
  | PBool bool
  | PInt int
  | PFloat rat
  | PStr string
  | PList "pyval list"
  | PDict "(string \<times> pyval) list"
  | PObj string "(string \<times> pyval) list"

type_synonym dict = "(string \<times> pyval) list"

text \<open>The exceptions the scripts can meet. \<open>DecodeError\<close> stands for whatever
  \<open>open\<close>, \<open>json.load\<close> or \<open>pickle.load\<close> raise on a file they cannot read;
  \<open>ExternalError\<close> for an exception raised inside a constructor of the agent library.\<close>

datatype exn =
    KeyError string
  | TypeError
  | AttributeError
  | IndexError
  | OSError
  | DecodeError
  | ExternalError string

text \<open>Python's \<open>bool(v)\<close>. Objects of the agent library are taken to be truthy, the
  default for a class that defines neither \<open>__bool__\<close> nor \<open>__len__\<close>.\<close>

fun truthy :: "pyval \<Rightarrow> bool" where
  "truthy PNone = False"
| "truthy (PBool b) = b"
| "truthy (PInt i) = (i \<noteq> 0)"
| "truthy (PFloat r) = (r \<noteq> 0)"
| "truthy (PStr s) = (s \<noteq> [])"
| "truthy (PList xs) = (xs \<noteq> [])"
| "truthy (PDict d) = (d \<noteq> [])"
| "truthy (PObj c kw) = True"

text \<open>Python's \<open>==\<close>: numbers compare by value across \<open>bool\<close>, \<open>int\<close> and \<open>float\<close>,
  lists elementwise, dictionaries as finite maps whatever their order; objects compare by
  identity, which the embedding reads as having the same class and arguments.\<close>

fun num_of :: "pyval \<Rightarrow> rat option" where
  "num_of (PBool b) = Some (if b then 1 else 0)"
| "num_of (PInt i) = Some (of_int i)"
| "num_of (PFloat r) = Some r"
| "num_of _ = None"

fun py_eq :: "pyval \<Rightarrow> pyval \<Rightarrow> bool"
and py_eq_list :: "pyval list \<Rightarrow> pyval list \<Rightarrow> bool"
and dict_has :: "dict \<Rightarrow> string \<Rightarrow> pyval \<Rightarrow> bool"
and dict_sub :: "dict \<Rightarrow> dict \<Rightarrow> bool"
where
  "py_eq (PList xs) (PList ys) = py_eq_list xs ys"
| "py_eq (PDict d) (PDict e) = (length d = length e \<and> dict_sub d e)"
| "py_eq a b = (case (num_of a, num_of b) of
                  (Some x, Some y) \<Rightarrow> x = y
                | (None, None) \<Rightarrow> a = b
                | _ \<Rightarrow> False)"
| "py_eq_list [] ys = (ys = [])"
| "py_eq_list (x # xs) [] = False"
| "py_eq_list (x # xs) (y # ys) = (py_eq x y \<and> py_eq_list xs ys)"
| "dict_has [] k v = False"
| "dict_has ((k', v') # e) k v = (if k' = k then py_eq v v' else dict_has e k v)"
| "dict_sub [] e = True"
| "dict_sub ((k, v) # d) e = (dict_has e k v \<and> dict_sub d e)"

text \<open>\<open>v[k]\<close> for a string literal \<open>k\<close>: only a dictionary can be subscripted by a
  string.\<close>

fun subscript :: "pyval \<Rightarrow> string \<Rightarrow> exn + pyval" where
  "subscript (PDict d) k = (case map_of d k of Some v \<Rightarrow> Inr v | None \<Rightarrow> Inl (KeyError k))"
| "subscript _ k = Inl TypeError"

text \<open>\<open>v.get(k, default)\<close>: only a dictionary has the method.\<close>

fun get :: "pyval \<Rightarrow> string \<Rightarrow> pyval \<Rightarrow> exn + pyval" where
  "get (PDict d) k dflt = (case map_of d k of Some v \<Rightarrow> Inr v | None \<Rightarrow> Inr dflt)"
| "get _ k dflt = Inl AttributeError"

text \<open>The same two operations on a value already known to be a dictionary.\<close>

definition item :: "dict \<Rightarrow> string \<Rightarrow> exn + pyval" where
  "item d k = subscript (PDict d) k"

definition get_or :: "dict \<Rightarrow> string \<Rightarrow> pyval \<Rightarrow> pyval" where
  "get_or d k dflt = (case map_of d k of Some v \<Rightarrow> v | None \<Rightarrow> dflt)"

text \<open>\<open>for x in v\<close>: a list yields its elements, a string its characters, a dictionary
  its keys; nothing else is iterable.\<close>

fun py_iter :: "pyval \<Rightarrow> exn + pyval list" where
  "py_iter (PList xs) = Inr xs"
| "py_iter (PStr s) = Inr (map (\<lambda>c. PStr [c]) s)"
| "py_iter (PDict d) = Inr (map (\<lambda>kv. PStr (fst kv)) d)"
| "py_iter _ = Inl TypeError"

fun hashable :: "pyval \<Rightarrow> bool" where
  "hashable (PList xs) = False"
| "hashable (PDict d) = False"
| "hashable _ = True"

fun is_substr :: "string \<Rightarrow> string \<Rightarrow> bool" where
  "is_substr t [] = (t = [])"
| "is_substr t (c # s) = (take (length t) (c # s) = t \<or> is_substr t s)"

text \<open>\<open>x in c\<close>: membership in a list, substring of a string, key of a dictionary.\<close>

fun py_in :: "pyval \<Rightarrow> pyval \<Rightarrow> exn + bool" where
  "py_in x (PList ys) = Inr (list_ex (py_eq x) ys)"
| "py_in x (PStr s) = (case x of PStr t \<Rightarrow> Inr (is_substr t s) | _ \<Rightarrow> Inl TypeError)"
| "py_in x (PDict d) =
     (if hashable x then Inr (list_ex (\<lambda>kv. py_eq x (PStr (fst kv))) d) else Inl TypeError)"
| "py_in x _ = Inl TypeError"

section \<open>The PowerShell tool\<close>

text \<open>
  \<open>PowerShellTool.execute\<close> calls \<open>subprocess.run\<close> with \<open>capture_output\<close> and \<open>text\<close>
  set and without \<open>check\<close>. The operating system is a parameter: \<open>run argv\<close> is either
  the exception \<open>subprocess.run\<close> raises (no interpreter to start, say) or the completed
  process.
\<close>

record completed_process =
  returncode :: int
  stdout :: string
  stderr :: string

definition execute ::
  "(string list \<Rightarrow> exn + completed_process) \<Rightarrow> string \<Rightarrow> exn + string" where
  "execute run command =
     (case run [''powershell'', ''-Command'', command] of
        Inl e \<Rightarrow> Inl e
      | Inr result \<Rightarrow> Inr (if stdout result \<noteq> [] then stdout result else stderr result))"

section \<open>Custom tools: running the function body\<close>

text \<open>
  \<open>DynamicTool.execute\<close> is declared \<open>def execute(self, **kwargs)\<close>: a call that passes
  a keyword named \<open>self\<close> is refused with a \<open>TypeError\<close> while the arguments are bound,
  before the body is entered. The body hands the stored function body to Python's
  \<open>exec\<close> and then formats the local variables with \<open>str\<close>, whether \<open>result\<close> is bound
  or not: the default of \<open>dict.get\<close> is an argument like any other. Both steps are inside
  the \<open>try\<close>. The interpreter is a parameter: \<open>py_exec code locals\<close> tells how the stored
  body (any stored value, a string or not) ends on the given local variables: it
  completes with the final local variables, or raises, or never completes; \<open>py_str\<close>
  tells how \<open>str(local_vars)\<close> ends: with a text, or raising, or never. What is raised
  either derives from \<open>Exception\<close>, and then carries how \<open>str(e)\<close> ends in the handler, or
  only from \<open>BaseException\<close> (\<open>SystemExit\<close>, \<open>KeyboardInterrupt\<close>, \<open>GeneratorExit\<close>), and
  then carries its class name.
\<close>

datatype raised = Exception str_outcome | BaseException string
and str_outcome = Text string | StrRaises raised | StrDiverges

datatype exec_result = Finished dict | Raises raised | Diverges

datatype call_result = Returns pyval | Propagates raised | Refused | NeverReturns

text \<open>The \<open>try\<close> statement on something raised inside it: \<open>except Exception as e\<close> returns
  the message built from \<open>str(e)\<close>; what \<open>str(e)\<close> raises leaves the handler, and so does
  what does not derive from \<open>Exception\<close>.\<close>

fun on_raise :: "raised \<Rightarrow> call_result" where
  "on_raise (Exception (Text t)) = Returns (PStr (''Error: '' @ t))"
| "on_raise (Exception (StrRaises r)) = Propagates r"
| "on_raise (Exception StrDiverges) = NeverReturns"
| "on_raise (BaseException c) = Propagates (BaseException c)"

definition dynamic_execute ::
  "(pyval \<Rightarrow> dict \<Rightarrow> exec_result) \<Rightarrow> (dict \<Rightarrow> str_outcome) \<Rightarrow> pyval \<Rightarrow> dict \<Rightarrow> call_result" where
  "dynamic_execute py_exec py_str function_code kwargs =
     (if ''self'' \<in> set (map fst kwargs) then Refused
      else
        let local_vars = kwargs in
        case py_exec function_code local_vars of
          Finished local_vars' \<Rightarrow>
            (case py_str local_vars' of
               Text s \<Rightarrow> Returns (get_or local_vars' ''result'' (PStr s))
             | StrRaises r \<Rightarrow> on_raise r
             | StrDiverges \<Rightarrow> NeverReturns)
        | Raises r \<Rightarrow> on_raise r
        | Diverges \<Rightarrow> NeverReturns)"

section \<open>Sequencing of calls that may raise\<close>

text \<open>A call returns \<open>Inr\<close> its value or \<open>Inl\<close> the exception it raised; \<open>thn\<close> runs
  the next step on the value and lets an exception pass, as consecutive statements do.
  \<open>collect\<close> is a loop that appends one result per element and stops at the first
  exception.\<close>

fun thn :: "exn + 'a \<Rightarrow> ('a \<Rightarrow> exn + 'b) \<Rightarrow> exn + 'b" where
  "thn (Inl e) f = Inl e"
| "thn (Inr v) f = f v"

fun collect :: "('a \<Rightarrow> exn + 'b) \<Rightarrow> 'a list \<Rightarrow> exn + 'b list" where
  "collect f [] = Inr []"
| "collect f (x # xs) = thn (f x) (\<lambda>y. thn (collect f xs) (\<lambda>ys. Inr (y # ys)))"

section \<open>The external agent library\<close>

text \<open>
  \<open>Agent\<close>, \<open>Tool\<close>, \<open>OpenAIChat\<close> and the three built-in tools are imported from the
  \<open>agentapps\<close> package, which is not part of the repository. The library is a parameter:
  \<open>L cls kwargs\<close> tells whether the constructor of class \<open>cls\<close> returns on these
  arguments; when it does not, it raises.
\<close>

type_synonym lib = "string \<Rightarrow> dict \<Rightarrow> bool"

definition construct :: "lib \<Rightarrow> string \<Rightarrow> dict \<Rightarrow> exn + pyval" where
  "construct L cls kwargs =
     (if L cls kwargs then Inr (PObj cls kwargs) else Inl (ExternalError cls))"

section \<open>Session state, storage and the page\<close>

text \<open>
  \<open>st.session_state\<close> holds the three record lists, the credential and the record being
  edited. The storage directory holds \<open>config.json\<close> and possibly a legacy \<open>config.pkl\<close>;
  a file is given by what reading it yields: the value of a well-formed document, or an
  exception. The medium tells how writing goes: well, or \<open>open(..., 'w')\<close> raises and
  the file stays as it is, or the file is opened (and so truncated) and writing to it
  raises. The messages the page
  shows through \<open>st.error\<close>, \<open>st.warning\<close> and \<open>st.success\<close> are collected in order; a
  message keeps the values formatted into its text.
\<close>

record session =
  agents :: "dict list"
  teams :: "dict list"
  custom_tools :: "dict list"
  api_key :: pyval
  editing_agent :: "dict option"

datatype content = Document pyval | Unreadable

datatype medium = Writable | ReadOnly | Full

record storage =
  json_file :: "content option"
  pkl_file :: "content option"
  medium :: medium

datatype msg =
    SaveFailed exn
  | LoadFailed exn
  | ToolFailed pyval exn
  | AgentFailed pyval exn
  | TeamFailed pyval exn
  | FormError string
  | FormFailed exn
  | Success string string

record world =
  session_state :: session
  disk :: storage
  shown :: "msg list"

definition report :: "msg \<Rightarrow> world \<Rightarrow> world" where
  "report m w = w\<lparr>shown := shown w @ [m]\<rparr>"

section \<open>Saving\<close>

text \<open>What \<open>json.dump\<close> accepts: every value but a live object.\<close>

fun json_ok :: "pyval \<Rightarrow> bool"
and json_ok_list :: "pyval list \<Rightarrow> bool"
and json_ok_dict :: "dict \<Rightarrow> bool"
where
  "json_ok (PList xs) = json_ok_list xs"
| "json_ok (PDict d) = json_ok_dict d"
| "json_ok (PObj c kw) = False"
| "json_ok v = True"
| "json_ok_list [] = True"
| "json_ok_list (x # xs) = (json_ok x \<and> json_ok_list xs)"
| "json_ok_dict [] = True"
| "json_ok_dict ((k, v) # d) = (json_ok v \<and> json_ok_dict d)"

text \<open>The three dictionaries \<open>save_data\<close> builds, one per kind of record.\<close>

definition saved_agent :: "dict \<Rightarrow> exn + pyval" where
  "saved_agent agent =
     thn (item agent ''name'') (\<lambda>name.
     thn (item agent ''role'') (\<lambda>role.
     thn (item agent ''tools'') (\<lambda>tools.
     thn (item agent ''instructions'') (\<lambda>instructions.
     Inr (PDict
       [(''name'', name),
        (''role'', role),
        (''tools'', tools),
        (''instructions'', instructions),
        (''model'', get_or agent ''model'' (PStr ''gpt-4'')),
        (''temperature'', get_or agent ''temperature'' (PFloat (7 / 10))),
        (''show_tool_calls'', get_or agent ''show_tool_calls'' (PBool True)),
        (''markdown'', get_or agent ''markdown'' (PBool True))])))))"

definition saved_team :: "dict \<Rightarrow> exn + pyval" where
  "saved_team team =
     thn (item team ''name'') (\<lambda>name.
     thn (item team ''members'') (\<lambda>members.
     thn (item team ''instructions'') (\<lambda>instructions.
     Inr (PDict
       [(''name'', name),
        (''members'', members),
        (''instructions'', instructions),
        (''workflow'', get_or team ''workflow'' (PStr ''Sequential''))]))))"

definition saved_custom_tool :: "dict \<Rightarrow> exn + pyval" where
  "saved_custom_tool tool =
     thn (item tool ''name'') (\<lambda>name.
     thn (item tool ''description'') (\<lambda>description.
     thn (item tool ''param_name'') (\<lambda>param_name.
     thn (item tool ''param_type'') (\<lambda>param_type.
     thn (item tool ''param_description'') (\<lambda>param_description.
     thn (item tool ''param_required'') (\<lambda>param_required.
     thn (item tool ''function_code'') (\<lambda>function_code.
     Inr (PDict
       [(''name'', name),
        (''description'', description),
        (''param_name'', param_name),
        (''param_type'', param_type),
        (''param_description'', param_description),
        (''param_required'', param_required),
        (''function_code'', function_code)]))))))))"

definition build_data :: "session \<Rightarrow> exn + pyval" where
  "build_data s =
     thn (collect saved_agent (agents s)) (\<lambda>agents_config.
     thn (collect saved_team (teams s)) (\<lambda>teams_config.
     thn (collect saved_custom_tool (custom_tools s)) (\<lambda>custom_tools_config.
     Inr (PDict
       [(''agents'', PList agents_config),
        (''teams'', PList teams_config),
        (''custom_tools'', PList custom_tools_config),
        (''api_key'', api_key s)]))))"

text \<open>\<open>open(path, 'w')\<close> followed by \<open>json.dump\<close>. Opening truncates the file, and
  \<open>json.dump\<close> writes as it goes, so a value it refuses leaves an incomplete document
  behind. A document that was written whole reads back as the value written: this is
  the contract of the \<open>json\<close> module, which the embedding takes as given.\<close>

definition write_json :: "storage \<Rightarrow> pyval \<Rightarrow> exn option \<times> storage" where
  "write_json fs data =
     (case medium fs of
        ReadOnly \<Rightarrow> (Some OSError, fs)
      | Full \<Rightarrow> (Some OSError, fs\<lparr>json_file := Some Unreadable\<rparr>)
      | Writable \<Rightarrow>
          if json_ok data then (None, fs\<lparr>json_file := Some (Document data)\<rparr>)
          else (Some TypeError, fs\<lparr>json_file := Some Unreadable\<rparr>))"

definition save_data :: "world \<Rightarrow> bool \<times> world" where
  "save_data w =
     (case build_data (session_state w) of
        Inl e \<Rightarrow> (False, report (SaveFailed e) w)
      | Inr data \<Rightarrow>
          (case write_json (disk w) data of
             (Some e, fs) \<Rightarrow> (False, report (SaveFailed e) (w\<lparr>disk := fs\<rparr>))
           | (None, fs) \<Rightarrow> (True, w\<lparr>disk := fs\<rparr>)))"

section \<open>Loading\<close>

text \<open>\<open>load_data\<close> returns the document's value, or \<open>None\<close> when there is no file or
  reading raised; the legacy file is read only when there is no JSON file.\<close>

definition read_file :: "content \<Rightarrow> world \<Rightarrow> pyval \<times> world" where
  "read_file c w =
     (case c of
        Document data \<Rightarrow> (data, w)
      | Unreadable \<Rightarrow> (PNone, report (LoadFailed DecodeError) w))"

definition load_data :: "world \<Rightarrow> pyval \<times> world" where
  "load_data w =
     (case json_file (disk w) of
        Some c \<Rightarrow> read_file c w
      | None \<Rightarrow>
          (case pkl_file (disk w) of
             Some c \<Rightarrow> read_file c w
           | None \<Rightarrow> (PNone, w)))"

section \<open>Reconstructing live objects\<close>

text \<open>The body of \<open>recreate_custom_tool\<close> inside its \<open>try\<close>: the six fields are read in
  the order of the constructor call, then \<open>DynamicTool\<close> is instantiated.\<close>

definition dynamic_tool :: "lib \<Rightarrow> pyval \<Rightarrow> exn + pyval" where
  "dynamic_tool L tool_config =
     thn (subscript tool_config ''name'') (\<lambda>name.
     thn (subscript tool_config ''description'') (\<lambda>description.
     thn (subscript tool_config ''param_name'') (\<lambda>param_name.
     thn (subscript tool_config ''param_type'') (\<lambda>param_type.
     thn (subscript tool_config ''param_description'') (\<lambda>param_description.
     thn (subscript tool_config ''function_code'') (\<lambda>function_code.
     construct L ''DynamicTool''
       [(''name'', name),
        (''description'', description),
        (''param_name'', param_name),
        (''param_type'', param_type),
        (''param_description'', param_description),
        (''function_code'', function_code)]))))))"

text \<open>\<open>recreate_custom_tool\<close>: the handler formats the record's name into the message
  before it shows it, so a record whose name cannot be read raises out of the handler.\<close>

definition recreate_custom_tool :: "lib \<Rightarrow> pyval \<Rightarrow> world \<Rightarrow> (exn + pyval) \<times> world" where
  "recreate_custom_tool L tool_config w =
     (case dynamic_tool L tool_config of
        Inr tool_obj \<Rightarrow> (Inr tool_obj, w)
      | Inl e \<Rightarrow>
          (case subscript tool_config ''name'' of
             Inr name \<Rightarrow> (Inr PNone, report (ToolFailed name e) w)
           | Inl e' \<Rightarrow> (Inl e', w)))"

text \<open>The dictionary \<open>available_tools\<close>. Its keys are the three built-in names and then
  whatever the custom tools are called, so it is keyed by values; an assignment to a key
  that is present keeps the key's place and replaces the object.\<close>

type_synonym tool_table = "(pyval \<times> pyval) list"

fun table_set :: "tool_table \<Rightarrow> pyval \<Rightarrow> pyval \<Rightarrow> tool_table" where
  "table_set [] k v = [(k, v)]"
| "table_set ((k', v') # t) k v =
     (if py_eq k' k then (k', v) # t else (k', v') # table_set t k v)"

fun table_get :: "tool_table \<Rightarrow> pyval \<Rightarrow> pyval option" where
  "table_get [] k = None"
| "table_get ((k', v') # t) k = (if py_eq k' k then Some v' else table_get t k)"

definition builtin_tools :: "lib \<Rightarrow> exn + tool_table" where
  "builtin_tools L =
     thn (construct L ''SearchSummaryTool'' []) (\<lambda>search.
     thn (construct L ''WebScraperTool'' []) (\<lambda>scraper.
     thn (construct L ''CalculatorTool'' []) (\<lambda>calculator.
     Inr [(PStr ''Web Search'', search),
          (PStr ''Web Scraper'', scraper),
          (PStr ''Calculator'', calculator)])))"

fun add_custom_tools :: "dict list \<Rightarrow> tool_table \<Rightarrow> exn + tool_table" where
  "add_custom_tools [] t = Inr t"
| "add_custom_tools (custom_tool # rest) t =
     thn (item custom_tool ''tool_obj'') (\<lambda>tool_obj.
     thn (item custom_tool ''name'') (\<lambda>name.
     if hashable name then add_custom_tools rest (table_set t name tool_obj)
     else Inl TypeError))"

definition available_tools :: "lib \<Rightarrow> session \<Rightarrow> exn + tool_table" where
  "available_tools L s = thn (builtin_tools L) (add_custom_tools (custom_tools s))"

text \<open>The comprehension \<open>[available_tools[t] for t in ... if t in available_tools]\<close>.\<close>

fun pick_tools :: "tool_table \<Rightarrow> pyval list \<Rightarrow> exn + pyval list" where
  "pick_tools t [] = Inr []"
| "pick_tools t (n # ns) =
     (if \<not> hashable n then Inl TypeError
      else case table_get t n of
             Some tool_obj \<Rightarrow> thn (pick_tools t ns) (\<lambda>r. Inr (tool_obj # r))
           | None \<Rightarrow> pick_tools t ns)"

text \<open>The body of \<open>recreate_agent_from_config\<close> inside its \<open>try\<close>.\<close>

definition agent_object :: "lib \<Rightarrow> session \<Rightarrow> pyval \<Rightarrow> pyval \<Rightarrow> exn + pyval" where
  "agent_object L s agent_config key =
     thn (available_tools L s) (\<lambda>table.
     thn (subscript agent_config ''tools'') (\<lambda>names.
     thn (py_iter names) (\<lambda>ns.
     thn (pick_tools table ns) (\<lambda>tools.
     thn (subscript agent_config ''name'') (\<lambda>name.
     thn (subscript agent_config ''role'') (\<lambda>role.
     thn (get agent_config ''model'' (PStr ''gpt-4'')) (\<lambda>model_id.
     thn (construct L ''OpenAIChat'' [(''id'', model_id), (''api_key'', key)]) (\<lambda>model.
     thn (subscript agent_config ''instructions'') (\<lambda>instructions.
     thn (get agent_config ''show_tool_calls'' (PBool True)) (\<lambda>show_tool_calls.
     thn (get agent_config ''markdown'' (PBool True)) (\<lambda>markdown.
     thn (get agent_config ''temperature'' (PFloat (7 / 10))) (\<lambda>temperature.
     construct L ''Agent''
       [(''name'', name),
        (''role'', role),
        (''model'', model),
        (''tools'', PList tools),
        (''instructions'', instructions),
        (''show_tool_calls'', show_tool_calls),
        (''markdown'', markdown),
        (''temperature'', temperature)]))))))))))))"

definition recreate_agent_from_config ::
  "lib \<Rightarrow> pyval \<Rightarrow> pyval \<Rightarrow> world \<Rightarrow> (exn + pyval) \<times> world" where
  "recreate_agent_from_config L agent_config key w =
     (case agent_object L (session_state w) agent_config key of
        Inr agent \<Rightarrow> (Inr agent, w)
      | Inl e \<Rightarrow>
          (case subscript agent_config ''name'' of
             Inr name \<Rightarrow> (Inr PNone, report (AgentFailed name e) w)
           | Inl e' \<Rightarrow> (Inl e', w)))"

section \<open>Start of a session\<close>

text \<open>
  The block under \<open>if 'initialized' not in st.session_state\<close> runs once per session, at
  the top level of the script: an exception it does not catch ends the run with whatever
  the session state holds by then. Each loop returns the exception that ended it, if any,
  with the world it reached.
\<close>

definition add_custom_tool :: "dict \<Rightarrow> world \<Rightarrow> world" where
  "add_custom_tool r w =
     w\<lparr>session_state := (session_state w)\<lparr>custom_tools := custom_tools (session_state w) @ [r]\<rparr>\<rparr>"

definition add_agent :: "dict \<Rightarrow> world \<Rightarrow> world" where
  "add_agent r w =
     w\<lparr>session_state := (session_state w)\<lparr>agents := agents (session_state w) @ [r]\<rparr>\<rparr>"

definition add_team :: "dict \<Rightarrow> world \<Rightarrow> world" where
  "add_team r w =
     w\<lparr>session_state := (session_state w)\<lparr>teams := teams (session_state w) @ [r]\<rparr>\<rparr>"

fun custom_tools_loop :: "lib \<Rightarrow> pyval list \<Rightarrow> world \<Rightarrow> exn option \<times> world" where
  "custom_tools_loop L [] w = (None, w)"
| "custom_tools_loop L (tool_config # rest) w =
     (case recreate_custom_tool L tool_config w of
        (Inl e, w') \<Rightarrow> (Some e, w')
      | (Inr tool_obj, w') \<Rightarrow>
          if truthy tool_obj then
            (case tool_config of
               PDict d \<Rightarrow>
                 custom_tools_loop L rest (add_custom_tool (AList.update ''tool_obj'' tool_obj d) w')
             | _ \<Rightarrow> (Some TypeError, w'))
          else custom_tools_loop L rest w')"

text \<open>The record stored for a reconstructed agent.\<close>

definition agent_entry :: "pyval \<Rightarrow> pyval \<Rightarrow> exn + dict" where
  "agent_entry agent_config agent_obj =
     thn (subscript agent_config ''name'') (\<lambda>name.
     thn (subscript agent_config ''role'') (\<lambda>role.
     thn (subscript agent_config ''tools'') (\<lambda>tools.
     thn (subscript agent_config ''instructions'') (\<lambda>instructions.
     thn (get agent_config ''model'' (PStr ''gpt-4'')) (\<lambda>model.
     thn (get agent_config ''temperature'' (PFloat (7 / 10))) (\<lambda>temperature.
     thn (get agent_config ''show_tool_calls'' (PBool True)) (\<lambda>show_tool_calls.
     thn (get agent_config ''markdown'' (PBool True)) (\<lambda>markdown.
     Inr [(''name'', name),
          (''role'', role),
          (''tools'', tools),
          (''instructions'', instructions),
          (''model'', model),
          (''temperature'', temperature),
          (''show_tool_calls'', show_tool_calls),
          (''markdown'', markdown),
          (''agent'', agent_obj)]))))))))"

fun agents_loop :: "lib \<Rightarrow> pyval list \<Rightarrow> world \<Rightarrow> exn option \<times> world" where
  "agents_loop L [] w = (None, w)"
| "agents_loop L (agent_config # rest) w =
     (case recreate_agent_from_config L agent_config (api_key (session_state w)) w of
        (Inl e, w') \<Rightarrow> (Some e, w')
      | (Inr agent_obj, w') \<Rightarrow>
          if truthy agent_obj then
            (case agent_entry agent_config agent_obj of
               Inr r \<Rightarrow> agents_loop L rest (add_agent r w')
             | Inl e \<Rightarrow> (Some e, w'))
          else agents_loop L rest w')"

text \<open>The comprehension that resolves a team's members against the agents already in
  the session: the condition reads \<open>team_config['members']\<close> once per agent.\<close>

fun team_agents :: "dict list \<Rightarrow> pyval \<Rightarrow> exn + pyval list" where
  "team_agents [] team_config = Inr []"
| "team_agents (a # as) team_config =
     thn (item a ''name'') (\<lambda>name.
     thn (subscript team_config ''members'') (\<lambda>members.
     thn (py_in name members) (\<lambda>found.
     if found then
       thn (item a ''agent'') (\<lambda>agent.
       thn (team_agents as team_config) (\<lambda>r. Inr (agent # r)))
     else team_agents as team_config)))"

text \<open>The body of the \<open>try\<close> for one team: the team object and the record stored.\<close>

definition team_entry :: "lib \<Rightarrow> pyval \<Rightarrow> pyval list \<Rightarrow> exn + dict" where
  "team_entry L team_config members_found =
     thn (subscript team_config ''name'') (\<lambda>name.
     thn (subscript team_config ''instructions'') (\<lambda>instructions.
     thn (construct L ''Agent''
            [(''name'', name),
             (''team'', PList members_found),
             (''instructions'', instructions),
             (''show_tool_calls'', PBool True),
             (''markdown'', PBool True)]) (\<lambda>team_obj.
     thn (subscript team_config ''members'') (\<lambda>members.
     thn (get team_config ''workflow'' (PStr ''Sequential'')) (\<lambda>workflow.
     Inr [(''name'', name),
          (''members'', members),
          (''instructions'', instructions),
          (''workflow'', workflow),
          (''team'', team_obj)])))))"

fun teams_loop :: "lib \<Rightarrow> pyval list \<Rightarrow> world \<Rightarrow> exn option \<times> world" where
  "teams_loop L [] w = (None, w)"
| "teams_loop L (team_config # rest) w =
     (case team_agents (agents (session_state w)) team_config of
        Inl e \<Rightarrow> (Some e, w)
      | Inr found \<Rightarrow>
          if length found \<ge> 2 then
            (case team_entry L team_config found of
               Inr r \<Rightarrow> teams_loop L rest (add_team r w)
             | Inl e \<Rightarrow>
                 (case subscript team_config ''name'' of
                    Inr name \<Rightarrow> teams_loop L rest (report (TeamFailed name e) w)
                  | Inl e' \<Rightarrow> (Some e', w)))
          else teams_loop L rest w)"

text \<open>One stage: \<open>if key in saved_data [and api_key]: for ... in saved_data[key]\<close>.\<close>

definition stage ::
  "(pyval list \<Rightarrow> world \<Rightarrow> exn option \<times> world) \<Rightarrow> bool \<Rightarrow> dict \<Rightarrow> string \<Rightarrow> world
     \<Rightarrow> exn option \<times> world" where
  "stage loop enabled saved_data key w =
     (case map_of saved_data key of
        None \<Rightarrow> (None, w)
      | Some v \<Rightarrow>
          if enabled then
            (case py_iter v of Inl e \<Rightarrow> (Some e, w) | Inr records \<Rightarrow> loop records w)
          else (None, w))"

definition next_stage ::
  "exn option \<times> world \<Rightarrow> (world \<Rightarrow> exn option \<times> world) \<Rightarrow> exn option \<times> world" where
  "next_stage r f = (case r of (Some e, w) \<Rightarrow> (Some e, w) | (None, w) \<Rightarrow> f w)"

definition fresh_session :: "string \<Rightarrow> session" where
  "fresh_session env_key =
     \<lparr>agents = [], teams = [], custom_tools = [], api_key = PStr env_key, editing_agent = None\<rparr>"

definition set_api_key :: "pyval \<Rightarrow> world \<Rightarrow> world" where
  "set_api_key k w = w\<lparr>session_state := (session_state w)\<lparr>api_key := k\<rparr>\<rparr>"

definition activate :: "lib \<Rightarrow> string \<Rightarrow> pyval \<Rightarrow> world \<Rightarrow> exn option \<times> world" where
  "activate L env_key saved_data w =
     (if truthy saved_data then
        (case get saved_data ''api_key'' (PStr env_key) of
           Inl e \<Rightarrow> (Some e, w)
         | Inr k \<Rightarrow>
             (case saved_data of
                PDict d \<Rightarrow>
                  next_stage
                    (next_stage
                       (stage (custom_tools_loop L) True d ''custom_tools'' (set_api_key k w))
                       (\<lambda>w'. stage (agents_loop L) (truthy (api_key (session_state w'))) d
                                ''agents'' w'))
                    (\<lambda>w'. stage (teams_loop L) (truthy (api_key (session_state w'))) d
                             ''teams'' w')
              | _ \<Rightarrow> (Some AttributeError, w)))
      else (None, w))"

definition initialize :: "lib \<Rightarrow> string \<Rightarrow> storage \<Rightarrow> exn option \<times> world" where
  "initialize L env_key fs =
     (case load_data \<lparr>session_state = fresh_session env_key, disk = fs, shown = []\<rparr> of
        (saved_data, w) \<Rightarrow> activate L env_key saved_data w)"

section \<open>The forms of the page\<close>

text \<open>
  Streamlit runs the script from the top on every event, with the widget values of that
  event; the branch of the one button pressed runs when the script reaches it. A form is
  the record of the widget values its branch reads. This section gives, for each branch
  that changes the agents, the teams, the custom tools, the credential or the record being
  edited, what the branch does when it runs. The chat tab changes only the chat history and
  is left out, as are the export button, which offers a download, and the import form,
  which changes nothing.
\<close>

text \<open>\<open>[i.strip() for i in text.split('\n') if i.strip()]\<close>, with the white space of
  \<open>str.strip\<close> among the first 256 code points.\<close>

definition is_space :: "char \<Rightarrow> bool" where
  "is_space c = ((of_char c :: nat) \<in> {9, 10, 11, 12, 13, 28, 29, 30, 31, 32, 133, 160})"

definition strip :: "string \<Rightarrow> string" where
  "strip s = rev (dropWhile is_space (rev (dropWhile is_space s)))"

fun split_on :: "char \<Rightarrow> string \<Rightarrow> string list" where
  "split_on c [] = [[]]"
| "split_on c (x # xs) =
     (if x = c then [] # split_on c xs
      else case split_on c xs of
             l # ls \<Rightarrow> (x # l) # ls
           | [] \<Rightarrow> [[x]])"

definition instruction_lines :: "string \<Rightarrow> pyval" where
  "instruction_lines text =
     PList (map PStr (filter (\<lambda>i. i \<noteq> []) (map strip (split_on (CHR 0x0A) text))))"

record agent_form =
  agent_name :: string
  agent_role :: string
  selected_tools :: "string list"
  instructions :: string
  show_tool_calls :: bool
  use_markdown :: bool
  temperature :: rat
  model :: string

record team_form =
  team_name :: string
  selected_agents :: "string list"
  team_instructions :: string
  workflow_type :: string

record tool_form =
  tool_name :: string
  tool_description :: string
  param_name :: string
  param_type :: string
  param_description :: string
  param_required :: bool
  function_code :: string

text \<open>Python's list index: a negative index counts from the end, an index out of range
  raises. \<open>xs[idx] = v\<close> and \<open>xs.pop(idx)\<close> follow.\<close>

definition index_in :: "nat \<Rightarrow> int \<Rightarrow> exn + nat" where
  "index_in n i =
     (let j = (if i < 0 then i + int n else i)
      in if 0 \<le> j \<and> j < int n then Inr (nat j) else Inl IndexError)"

fun resolve_index :: "nat \<Rightarrow> pyval \<Rightarrow> exn + nat" where
  "resolve_index n (PInt i) = index_in n i"
| "resolve_index n (PBool b) = index_in n (if b then 1 else 0)"
| "resolve_index n _ = Inl TypeError"

definition list_assign :: "'a list \<Rightarrow> pyval \<Rightarrow> 'a \<Rightarrow> exn + 'a list" where
  "list_assign xs idx v = thn (resolve_index (length xs) idx) (\<lambda>j. Inr (xs[j := v]))"

definition others :: "nat \<Rightarrow> 'a list \<Rightarrow> 'a list" where
  "others j xs = take j xs @ drop (Suc j) xs"

definition list_pop :: "'a list \<Rightarrow> nat \<Rightarrow> exn + 'a list" where
  "list_pop xs idx = (if idx < length xs then Inr (others idx xs) else Inl IndexError)"

definition set_agents :: "dict list \<Rightarrow> world \<Rightarrow> world" where
  "set_agents xs w = w\<lparr>session_state := (session_state w)\<lparr>agents := xs\<rparr>\<rparr>"

definition set_teams :: "dict list \<Rightarrow> world \<Rightarrow> world" where
  "set_teams xs w = w\<lparr>session_state := (session_state w)\<lparr>teams := xs\<rparr>\<rparr>"

definition set_custom_tools :: "dict list \<Rightarrow> world \<Rightarrow> world" where
  "set_custom_tools xs w = w\<lparr>session_state := (session_state w)\<lparr>custom_tools := xs\<rparr>\<rparr>"

definition set_editing_agent :: "dict option \<Rightarrow> world \<Rightarrow> world" where
  "set_editing_agent e w = w\<lparr>session_state := (session_state w)\<lparr>editing_agent := e\<rparr>\<rparr>"

text \<open>The sidebar: a changed key is stored and saved; \<open>Save All\<close> saves.\<close>

definition enter_api_key :: "string \<Rightarrow> world \<Rightarrow> exn option \<times> world" where
  "enter_api_key k w =
     (if \<not> py_eq (PStr k) (api_key (session_state w))
      then (None, snd (save_data (set_api_key (PStr k) w)))
      else (None, w))"

definition save_all :: "world \<Rightarrow> exn option \<times> world" where
  "save_all w = (None, report (Success ''Saved'' []) (snd (save_data w)))"

text \<open>The agent tab. \<open>tools = [available_tools[t] for t in selected_tools]\<close> stands before
  the \<open>try\<close>, so a missing key raises out of the branch; what the \<open>try\<close> catches is
  shown. With a record being edited, the new record replaces the one at the index noted
  when editing began; otherwise it is appended. No branch looks at the names already in
  the list.\<close>

definition chosen_tools :: "tool_table \<Rightarrow> string list \<Rightarrow> exn + pyval list" where
  "chosen_tools table ts =
     collect (\<lambda>t. case table_get table (PStr t) of
                    Some tool_obj \<Rightarrow> Inr tool_obj
                  | None \<Rightarrow> Inl (KeyError t)) ts"

definition form_agent :: "lib \<Rightarrow> agent_form \<Rightarrow> pyval \<Rightarrow> pyval list \<Rightarrow> exn + dict" where
  "form_agent L f key tools =
     thn (construct L ''OpenAIChat'' [(''id'', PStr (model f)), (''api_key'', key)]) (\<lambda>chat.
     thn (construct L ''Agent''
            [(''name'', PStr (agent_name f)),
             (''role'', PStr (agent_role f)),
             (''model'', chat),
             (''tools'', PList tools),
             (''instructions'', instruction_lines (instructions f)),
             (''show_tool_calls'', PBool (show_tool_calls f)),
             (''markdown'', PBool (use_markdown f)),
             (''temperature'', PFloat (temperature f))]) (\<lambda>agent.
     Inr [(''name'', PStr (agent_name f)),
          (''role'', PStr (agent_role f)),
          (''agent'', agent),
          (''tools'', PList (map PStr (selected_tools f))),
          (''instructions'', instruction_lines (instructions f)),
          (''model'', PStr (model f)),
          (''temperature'', PFloat (temperature f)),
          (''show_tool_calls'', PBool (show_tool_calls f)),
          (''markdown'', PBool (use_markdown f))]))"

definition editing :: "session \<Rightarrow> dict option" where
  "editing s = (case editing_agent s of Some e \<Rightarrow> if e \<noteq> [] then Some e else None | None \<Rightarrow> None)"

definition store_agent :: "agent_form \<Rightarrow> dict \<Rightarrow> world \<Rightarrow> exn + world" where
  "store_agent f agent_data w =
     (case editing (session_state w) of
        Some e \<Rightarrow>
          thn (item e ''index'') (\<lambda>idx.
          thn (list_assign (agents (session_state w)) idx agent_data) (\<lambda>xs.
          Inr (report (Success ''Agent updated'' (agent_name f))
                 (snd (save_data (set_editing_agent None (set_agents xs w)))))))
      | None \<Rightarrow>
          Inr (report (Success ''Agent created'' (agent_name f))
                 (snd (save_data (add_agent agent_data w)))))"

definition submit_agent :: "lib \<Rightarrow> tool_table \<Rightarrow> agent_form \<Rightarrow> world \<Rightarrow> exn option \<times> world" where
  "submit_agent L table f w =
     (if \<not> truthy (api_key (session_state w))
      then (None, report (FormError ''Please enter your OpenAI API key in the sidebar!'') w)
      else if agent_name f = []
      then (None, report (FormError ''Please enter an agent name!'') w)
      else case chosen_tools table (selected_tools f) of
             Inl e \<Rightarrow> (Some e, w)
           | Inr tools \<Rightarrow>
               (case thn (form_agent L f (api_key (session_state w)) tools)
                         (\<lambda>agent_data. store_agent f agent_data w) of
                  Inr w' \<Rightarrow> (None, w')
                | Inl e \<Rightarrow> (None, report (FormFailed e) w)))"

text \<open>The team tab, shown when the session has two agents.\<close>

fun selected_team_agents :: "dict list \<Rightarrow> string list \<Rightarrow> exn + pyval list" where
  "selected_team_agents [] selected = Inr []"
| "selected_team_agents (a # as) selected =
     thn (item a ''name'') (\<lambda>name.
     if list_ex (\<lambda>n. py_eq name (PStr n)) selected then
       thn (item a ''agent'') (\<lambda>agent.
       thn (selected_team_agents as selected) (\<lambda>r. Inr (agent # r)))
     else selected_team_agents as selected)"

definition form_team :: "lib \<Rightarrow> team_form \<Rightarrow> pyval list \<Rightarrow> exn + dict" where
  "form_team L f members_found =
     thn (construct L ''Agent''
            [(''name'', PStr (team_name f)),
             (''team'', PList members_found),
             (''instructions'', instruction_lines (team_instructions f)),
             (''show_tool_calls'', PBool True),
             (''markdown'', PBool True)]) (\<lambda>team.
     Inr [(''name'', PStr (team_name f)),
          (''team'', team),
          (''members'', PList (map PStr (selected_agents f))),
          (''instructions'', instruction_lines (team_instructions f)),
          (''workflow'', PStr (workflow_type f))])"

definition create_team :: "lib \<Rightarrow> team_form \<Rightarrow> world \<Rightarrow> exn option \<times> world" where
  "create_team L f w =
     (if length (agents (session_state w)) < 2 then (None, w)
      else if team_name f = []
      then (None, report (FormError ''Please enter a team name!'') w)
      else if length (selected_agents f) < 2
      then (None, report (FormError ''Please select at least 2 agents!'') w)
      else case selected_team_agents (agents (session_state w)) (selected_agents f) of
             Inl e \<Rightarrow> (Some e, w)
           | Inr members_found \<Rightarrow>
               (case form_team L f members_found of
                  Inr team_data \<Rightarrow>
                    (None, report (Success ''Team created'' (team_name f))
                             (snd (save_data (add_team team_data w))))
                | Inl e \<Rightarrow> (None, report (FormFailed e) w)))"

text \<open>The custom tool tab. The class defined here takes five arguments.\<close>

definition form_tool :: "lib \<Rightarrow> tool_form \<Rightarrow> exn + dict" where
  "form_tool L f =
     thn (construct L ''DynamicTool''
            [(''name'', PStr (tool_name f)),
             (''description'', PStr (tool_description f)),
             (''param_name'', PStr (param_name f)),
             (''param_type'', PStr (param_type f)),
             (''function_code'', PStr (function_code f))]) (\<lambda>custom_tool_obj.
     Inr [(''name'', PStr (tool_name f)),
          (''description'', PStr (tool_description f)),
          (''param_name'', PStr (param_name f)),
          (''param_type'', PStr (param_type f)),
          (''param_description'', PStr (param_description f)),
          (''param_required'', PBool (param_required f)),
          (''function_code'', PStr (function_code f)),
          (''tool_obj'', custom_tool_obj)])"

definition create_custom_tool :: "lib \<Rightarrow> tool_form \<Rightarrow> world \<Rightarrow> exn option \<times> world" where
  "create_custom_tool L f w =
     (if tool_name f = [] \<or> tool_description f = [] \<or> function_code f = []
      then (None, report (FormError ''Please fill in all fields!'') w)
      else case form_tool L f of
             Inr tool_data \<Rightarrow>
               (None, report (Success ''Custom tool created'' (tool_name f))
                        (snd (save_data (add_custom_tool tool_data w))))
           | Inl e \<Rightarrow> (None, report (FormFailed e) w))"

text \<open>The buttons next to the records listed: each carries the index of its record.\<close>

definition delete_custom_tool :: "nat \<Rightarrow> world \<Rightarrow> exn option \<times> world" where
  "delete_custom_tool idx w =
     (case list_pop (custom_tools (session_state w)) idx of
        Inl e \<Rightarrow> (Some e, w)
      | Inr xs \<Rightarrow> (None, snd (save_data (set_custom_tools xs w))))"

definition edit_agent :: "nat \<Rightarrow> world \<Rightarrow> exn option \<times> world" where
  "edit_agent idx w =
     (if idx < length (agents (session_state w))
      then (None, set_editing_agent
                    (Some (AList.update ''index'' (PInt (int idx)) (agents (session_state w) ! idx))) w)
      else (Some IndexError, w))"

definition delete_agent :: "nat \<Rightarrow> world \<Rightarrow> exn option \<times> world" where
  "delete_agent idx w =
     (case list_pop (agents (session_state w)) idx of
        Inl e \<Rightarrow> (Some e, w)
      | Inr xs \<Rightarrow> (None, snd (save_data (set_agents xs w))))"

definition delete_team :: "nat \<Rightarrow> world \<Rightarrow> exn option \<times> world" where
  "delete_team idx w =
     (case list_pop (teams (session_state w)) idx of
        Inl e \<Rightarrow> (Some e, w)
      | Inr xs \<Rightarrow> (None, snd (save_data (set_teams xs w))))"

text \<open>The button \<open>Clear All Data\<close>: the lists are emptied only under the check box
  \<open>Confirm deletion\<close>, which is created inside the branch of the button.\<close>

definition clear_all_data :: "bool \<Rightarrow> world \<Rightarrow> exn option \<times> world" where
  "clear_all_data confirm_deletion w =
     (if confirm_deletion
      then (None, report (Success ''All data cleared'' [])
                    (snd (save_data (set_custom_tools [] (set_teams [] (set_agents [] w))))))
      else (None, w))"

text \<open>
  An operation is one execution of the branch of a button, or of the branch under the
  sidebar's key field, with the values the branch reads: the widget values and, for the
  agent form, the dictionary \<open>available_tools\<close> that the script built above the form in the
  same run. Whether a run of the script reaches a branch is not part of the model: the
  code above a branch may raise and end the run before it (so does the tool selector
  of the agent form while the record being edited lists a tool that is no longer
  offered), and then no operation takes place. A sequence of operations lists the branches
  that were executed in a session, in order; an exception ends the branch that raised it,
  and the session state it leaves is the one the next operation starts from.

  The check box of \<open>Clear All Data\<close> has no key and exists only in the run in which the
  button was pressed, so the branch of the button reads its initial value, \<open>False\<close>.
\<close>

datatype operation =
    EnterApiKey string
  | SaveAll
  | CancelEditing
  | SubmitAgent tool_table agent_form
  | CreateTeam team_form
  | CreateCustomTool tool_form
  | DeleteCustomTool nat
  | EditAgent nat
  | DeleteAgent nat
  | DeleteTeam nat
  | ClearAllData

fun perform :: "lib \<Rightarrow> operation \<Rightarrow> world \<Rightarrow> exn option \<times> world" where
  "perform L (EnterApiKey k) w = enter_api_key k w"
| "perform L SaveAll w = save_all w"
| "perform L CancelEditing w = (None, set_editing_agent None w)"
| "perform L (SubmitAgent table f) w = submit_agent L table f w"
| "perform L (CreateTeam f) w = create_team L f w"
| "perform L (CreateCustomTool f) w = create_custom_tool L f w"
| "perform L (DeleteCustomTool idx) w = delete_custom_tool idx w"
| "perform L (EditAgent idx) w = edit_agent idx w"
| "perform L (DeleteAgent idx) w = delete_agent idx w"
| "perform L (DeleteTeam idx) w = delete_team idx w"
| "perform L ClearAllData w = clear_all_data False w"

fun perform_all :: "lib \<Rightarrow> operation list \<Rightarrow> world \<Rightarrow> world" where
  "perform_all L [] w = w"
| "perform_all L (a # as) w = perform_all L as (snd (perform L a w))"

text \<open>The names held by a list of records; a session has unique names when no list
  holds a name twice. An operation submits a free name when the name it would store is
  not held by another record of its list: any record for a creation, any record but the
  one replaced for an update.\<close>

definition names_of :: "dict list \<Rightarrow> pyval option list" where
  "names_of rs = map (\<lambda>r. map_of r ''name'') rs"

definition unique_names :: "session \<Rightarrow> bool" where
  "unique_names s =
     (distinct (names_of (agents s)) \<and> distinct (names_of (teams s))
      \<and> distinct (names_of (custom_tools s)))"

fun submits_free_name :: "operation \<Rightarrow> session \<Rightarrow> bool" where
  "submits_free_name (SubmitAgent table f) s =
     (case editing s of
        Some e \<Rightarrow>
          (case thn (item e ''index'') (resolve_index (length (agents s))) of
             Inr j \<Rightarrow> Some (PStr (agent_name f)) \<notin> set (names_of (others j (agents s)))
           | Inl x \<Rightarrow> True)
      | None \<Rightarrow> Some (PStr (agent_name f)) \<notin> set (names_of (agents s)))"
| "submits_free_name (CreateTeam f) s = (Some (PStr (team_name f)) \<notin> set (names_of (teams s)))"
| "submits_free_name (CreateCustomTool f) s =
     (Some (PStr (tool_name f)) \<notin> set (names_of (custom_tools s)))"
| "submits_free_name _ s = True"

fun free_names_along :: "lib \<Rightarrow> operation list \<Rightarrow> world \<Rightarrow> bool" where
  "free_names_along L [] w = True"
| "free_names_along L (a # as) w =
     (submits_free_name a (session_state w) \<and> free_names_along L as (snd (perform L a w)))"

section \<open>Record fields and example records\<close>








text \<open>Storage from which nothing is loaded: no file at all, a file that cannot be read
  or parsed, or a document whose value Python takes for false (\<open>null\<close>, an empty object).\<close>

definition abandoned :: "storage \<Rightarrow> bool" where
  "abandoned fs =
     (case (case json_file fs of Some c \<Rightarrow> Some c | None \<Rightarrow> pkl_file fs) of
        None \<Rightarrow> True
      | Some Unreadable \<Rightarrow> True
      | Some (Document v) \<Rightarrow> \<not> truthy v)"

text \<open>The team records of the stored JSON document.\<close>

definition stored_teams :: "storage \<Rightarrow> pyval list option" where
  "stored_teams fs =
     (case json_file fs of
        Some (Document (PDict d)) \<Rightarrow>
          (case map_of d ''teams'' of Some (PList tms) \<Rightarrow> Some tms | _ \<Rightarrow> None)
      | _ \<Rightarrow> None)"

text \<open>Records and documents for the examples: a library that accepts every constructor
  call, records as a stored document holds them, a document with the four top-level keys,
  and a storage directory holding one document.\<close>

definition accept_all :: lib where
  "accept_all cls kwargs = True"

definition tool_dict :: "string \<Rightarrow> dict" where
  "tool_dict n =
     [(''name'', PStr n), (''description'', PStr ''Doubles a number''),
      (''param_name'', PStr ''x''), (''param_type'', PStr ''number''),
      (''param_description'', PStr ''the number''), (''param_required'', PBool True),
      (''function_code'', PStr ''result = x * 2'')]"

definition tool_rec :: "string \<Rightarrow> pyval" where
  "tool_rec n = PDict (tool_dict n)"

definition agent_dict :: "string \<Rightarrow> string list \<Rightarrow> dict" where
  "agent_dict n ts =
     [(''name'', PStr n), (''role'', PStr ''helper''), (''tools'', PList (map PStr ts)),
      (''instructions'', PList [PStr ''Be brief''])]"

definition agent_rec :: "string \<Rightarrow> string list \<Rightarrow> pyval" where
  "agent_rec n ts = PDict (agent_dict n ts)"

definition team_dict :: "string \<Rightarrow> string list \<Rightarrow> dict" where
  "team_dict n ms =
     [(''name'', PStr n), (''members'', PList (map PStr ms)),
      (''instructions'', PList [PStr ''Work in turn''])]"

definition team_rec :: "string \<Rightarrow> string list \<Rightarrow> pyval" where
  "team_rec n ms = PDict (team_dict n ms)"

text \<open>An agent record without a name.\<close>

definition nameless_agent :: pyval where
  "nameless_agent =
     PDict [(''role'', PStr ''helper''), (''tools'', PList []), (''instructions'', PList [])]"

definition document_dict :: "pyval list \<Rightarrow> pyval list \<Rightarrow> pyval list \<Rightarrow> dict" where
  "document_dict ags tms cts =
     [(''agents'', PList ags), (''teams'', PList tms), (''custom_tools'', PList cts),
      (''api_key'', PStr ''sk-test'')]"

definition document :: "pyval list \<Rightarrow> pyval list \<Rightarrow> pyval list \<Rightarrow> pyval" where
  "document ags tms cts = PDict (document_dict ags tms cts)"

definition stored :: "pyval \<Rightarrow> storage" where
  "stored v = \<lparr>json_file = Some (Document v), pkl_file = None, medium = Writable\<rparr>"

text \<open>The same records as a session holds them once they are live: the tool object, the
  agent object with the tool objects it resolved, the team object with its members.\<close>

definition tool_object :: "string \<Rightarrow> pyval" where
  "tool_object n =
     PObj ''DynamicTool''
       [(''name'', PStr n), (''description'', PStr ''Doubles a number''),
        (''param_name'', PStr ''x''), (''param_type'', PStr ''number''),
        (''param_description'', PStr ''the number''),
        (''function_code'', PStr ''result = x * 2'')]"

definition live_tool :: "string \<Rightarrow> dict" where
  "live_tool n = tool_dict n @ [(''tool_obj'', tool_object n)]"

definition live_agent_object :: "string \<Rightarrow> pyval list \<Rightarrow> pyval" where
  "live_agent_object n objs =
     PObj ''Agent''
       [(''name'', PStr n), (''role'', PStr ''helper''),
        (''model'', PObj ''OpenAIChat'' [(''id'', PStr ''gpt-4''), (''api_key'', PStr ''sk-test'')]),
        (''tools'', PList objs), (''instructions'', PList [PStr ''Be brief'']),
        (''show_tool_calls'', PBool True), (''markdown'', PBool True),
        (''temperature'', PFloat (7 / 10))]"

definition live_agent :: "string \<Rightarrow> string list \<Rightarrow> pyval list \<Rightarrow> dict" where
  "live_agent n ts objs =
     agent_dict n ts @
     [(''model'', PStr ''gpt-4''), (''temperature'', PFloat (7 / 10)),
      (''show_tool_calls'', PBool True), (''markdown'', PBool True),
      (''agent'', live_agent_object n objs)]"

definition live_team_object :: "string \<Rightarrow> pyval list \<Rightarrow> pyval" where
  "live_team_object n members_found =
     PObj ''Agent''
       [(''name'', PStr n), (''team'', PList members_found),
        (''instructions'', PList [PStr ''Work in turn'']),
        (''show_tool_calls'', PBool True), (''markdown'', PBool True)]"

definition live_team :: "string \<Rightarrow> string list \<Rightarrow> pyval list \<Rightarrow> dict" where
  "live_team n ms members_found =
     team_dict n ms @
     [(''workflow'', PStr ''Sequential''), (''team'', live_team_object n members_found)]"

text \<open>The example workspace: agent A with the custom tool, agent B without tools, the
  team of both, and the storage it was started from.\<close>

definition example_document :: pyval where
  "example_document =
     document [agent_rec ''A'' [''double''], agent_rec ''B'' []]
       [team_rec ''T'' [''A'', ''B'']] [tool_rec ''double'']"

definition example_session :: session where
  "example_session =
     \<lparr>agents = [live_agent ''A'' [''double''] [tool_object ''double''], live_agent ''B'' [] []],
      teams = [live_team ''T'' [''A'', ''B'']
                 [live_agent_object ''A'' [tool_object ''double''], live_agent_object ''B'' []]],
      custom_tools = [live_tool ''double''],
      api_key = PStr ''sk-test'',
      editing_agent = None\<rparr>"

definition example_world :: world where
  "example_world =
     \<lparr>session_state = example_session, disk = stored example_document, shown = []\<rparr>"

definition read_only :: "world \<Rightarrow> world" where
  "read_only w = w\<lparr>disk := (disk w)\<lparr>medium := ReadOnly\<rparr>\<rparr>"

text \<open>A session whose one custom tool carries the name of a built-in tool.\<close>

definition shadow_session :: session where
  "shadow_session =
     \<lparr>agents = [], teams = [], custom_tools = [live_tool ''Calculator''],
      api_key = PStr ''sk-test'', editing_agent = None\<rparr>"

text \<open>What the properties of the tool table say about the custom tools of a session: a
  record is registered when its object and its name can be read and the name can be a
  dictionary key; it is named \<open>n\<close> when its name is that string.\<close>

definition registered :: "dict \<Rightarrow> bool" where
  "registered c =
     (case (item c ''name'', item c ''tool_obj'') of
        (Inr k, Inr v) \<Rightarrow> hashable k
      | _ \<Rightarrow> False)"

definition named :: "string \<Rightarrow> dict \<Rightarrow> bool" where
  "named n c = (item c ''name'' = Inr (PStr n))"

text \<open>A session with a credential and nothing else, the dictionary \<open>available_tools\<close>
  of a session without custom tools, and two filled agent forms.\<close>

definition keyed_world :: world where
  "keyed_world =
     \<lparr>session_state = (fresh_session [])\<lparr>api_key := PStr ''sk-test''\<rparr>,
      disk = \<lparr>json_file = None, pkl_file = None, medium = Writable\<rparr>, shown = []\<rparr>"

definition builtin_table :: tool_table where
  "builtin_table =
     [(PStr ''Web Search'', PObj ''SearchSummaryTool'' []),
      (PStr ''Web Scraper'', PObj ''WebScraperTool'' []),
      (PStr ''Calculator'', PObj ''CalculatorTool'' [])]"

definition agent_A_form :: agent_form where
  "agent_A_form =
     \<lparr>agent_name = ''A'', agent_role = ''helper'', selected_tools = [''Calculator''],
      instructions = ''Be brief'' @ [CHR 0x0A] @ ''  '' @ [CHR 0x0A] @ '' Cite sources '',
      show_tool_calls = True, use_markdown = True, temperature = 7 / 10, model = ''gpt-4''\<rparr>"

definition agent_B_form :: agent_form where
  "agent_B_form = agent_A_form\<lparr>agent_name := ''B'', selected_tools := []\<rparr>"

text \<open>An interpreter and a \<open>str\<close> for the examples of \<open>DynamicTool.execute\<close>: they
  agree with Python on the bodies listed and on the local variables the examples format.
  The value \<open>unprintable\<close> stands for an object whose \<open>__repr__\<close> raises
  \<open>ValueError('no repr')\<close>.\<close>

definition unprintable :: pyval where
  "unprintable = PObj ''Unprintable'' []"

definition sample_exec :: "pyval \<Rightarrow> dict \<Rightarrow> exec_result" where
  "sample_exec code local_vars =
     (if code = PStr ''raise SystemExit'' then Raises (BaseException ''SystemExit'')
      else if code = PStr ''x = 1 / 0'' then Raises (Exception (Text ''division by zero''))
      else if code = PStr ''pass'' then Finished local_vars
      else Diverges)"

definition sample_str :: "dict \<Rightarrow> str_outcome" where
  "sample_str local_vars =
     (if local_vars = [] then Text ''{}''
      else if local_vars = [(''result'', PInt 4)]
        then Text (''{'' @ [CHR 0x27] @ ''result'' @ [CHR 0x27] @ '': 4}'')
      else if unprintable \<in> set (map snd local_vars)
        then StrRaises (Exception (Text ''no repr''))
      else StrDiverges)"

section \<open>Basic facts\<close>

lemmas example_defs =
  accept_all_def tool_dict_def tool_rec_def agent_dict_def agent_rec_def team_dict_def
  team_rec_def nameless_agent_def document_dict_def document_def stored_def tool_object_def live_tool_def live_agent_object_def
  live_agent_def live_team_object_def live_team_def example_document_def example_session_def
  example_world_def read_only_def shadow_session_def keyed_world_def agent_A_form_def
  agent_B_form_def builtin_table_def unprintable_def sample_exec_def sample_str_def

lemmas run_defs =
  initialize_def load_data_def read_file_def activate_def stage_def next_stage_def
  set_api_key_def fresh_session_def report_def add_custom_tool_def add_agent_def add_team_def
  recreate_custom_tool_def dynamic_tool_def construct_def recreate_agent_from_config_def
  agent_object_def available_tools_def builtin_tools_def item_def agent_entry_def team_entry_def
  get_or_def

lemmas form_defs =
  submit_agent_def chosen_tools_def form_agent_def store_agent_def editing_def
  instruction_lines_def strip_def is_space_def create_team_def form_team_def
  create_custom_tool_def form_tool_def delete_agent_def delete_team_def delete_custom_tool_def
  edit_agent_def clear_all_data_def enter_api_key_def save_all_def list_assign_def list_pop_def
  others_def index_in_def set_agents_def set_teams_def set_custom_tools_def set_editing_agent_def
  names_of_def unique_names_def


lemma py_eq_PStr_right [simp]: "py_eq v (PStr s) = (v = PStr s)"
  by (cases v) auto

lemma py_eq_PStr_left [simp]: "py_eq (PStr s) v = (v = PStr s)"
  by (cases v) auto

declare py_eq.simps [simp del]

text \<open>The example workspace is what a session holds after starting from the example
  document.\<close>

lemma initialize_example:
  "initialize accept_all [] (stored example_document) = (None, example_world)"
  by (simp add: example_defs run_defs)






subsection \<open>What a save writes for the teams\<close>

lemma collect_saved_team_names:
  "collect saved_team xs = Inr tms
   \<Longrightarrow> map (\<lambda>t. subscript t ''name'') tms = map (\<lambda>r. item r ''name'') xs"
proof (induction xs arbitrary: tms)
  case Nil
  then show ?case by simp
next
  case (Cons x xs)
  from Cons.prems obtain t ts where
    t: "saved_team x = Inr t" and ts: "collect saved_team xs = Inr ts" and tms: "tms = t # ts"
    by (cases "saved_team x"; cases "collect saved_team xs") auto
  from t have "subscript t ''name'' = item x ''name''"
    by (cases "item x ''name''"; cases "item x ''members''"; cases "item x ''instructions''")
       (auto simp: saved_team_def)
  with Cons.IH [OF ts] tms show ?case by simp
qed

lemma save_data_stored_teams:
  assumes "fst (save_data w)"
  shows "\<exists>tms. stored_teams (disk (snd (save_data w))) = Some tms
           \<and> map (\<lambda>t. subscript t ''name'') tms
               = map (\<lambda>r. item r ''name'') (teams (session_state w))"
proof -
  from assms obtain data where data: "build_data (session_state w) = Inr data"
    by (cases "build_data (session_state w)") (auto simp: save_data_def)
  then obtain ags tms cts where
    tms: "collect saved_team (teams (session_state w)) = Inr tms"
    and d: "data = PDict [(''agents'', PList ags), (''teams'', PList tms),
                          (''custom_tools'', PList cts),
                          (''api_key'', api_key (session_state w))]"
    by (cases "collect saved_agent (agents (session_state w))";
        cases "collect saved_team (teams (session_state w))";
        cases "collect saved_custom_tool (custom_tools (session_state w))")
       (auto simp: build_data_def)
  from assms data have "json_file (disk (snd (save_data w))) = Some (Document data)"
    by (auto simp: save_data_def write_json_def split: medium.splits if_splits)
  then have "stored_teams (disk (snd (save_data w))) = Some tms"
    by (simp add: stored_teams_def d)
  with collect_saved_team_names [OF tms] show ?thesis by simp
qed

subsection \<open>Starting a session never writes to storage\<close>

lemma disk_report [simp]: "disk (report m w) = disk w"
  by (simp add: report_def)

lemma disk_add_custom_tool [simp]: "disk (add_custom_tool r w) = disk w"
  by (simp add: add_custom_tool_def)

lemma disk_add_agent [simp]: "disk (add_agent r w) = disk w"
  by (simp add: add_agent_def)

lemma disk_add_team [simp]: "disk (add_team r w) = disk w"
  by (simp add: add_team_def)

lemma disk_set_api_key [simp]: "disk (set_api_key k w) = disk w"
  by (simp add: set_api_key_def)

lemma disk_recreate_custom_tool: "disk (snd (recreate_custom_tool L c w)) = disk w"
  by (simp add: recreate_custom_tool_def split: sum.splits)

lemma disk_recreate_agent: "disk (snd (recreate_agent_from_config L c k w)) = disk w"
  by (simp add: recreate_agent_from_config_def split: sum.splits)

lemma disk_custom_tools_loop: "disk (snd (custom_tools_loop L cs w)) = disk w"
proof (induction cs arbitrary: w)
  case Nil
  show ?case by simp
next
  case (Cons c cs)
  show ?case
    using disk_recreate_custom_tool [of L c w]
    by (auto simp: Cons.IH split: prod.splits sum.splits pyval.splits)
qed

lemma disk_agents_loop: "disk (snd (agents_loop L cs w)) = disk w"
proof (induction cs arbitrary: w)
  case Nil
  show ?case by simp
next
  case (Cons c cs)
  show ?case
    using disk_recreate_agent [of L c "api_key (session_state w)" w]
    by (auto simp: Cons.IH split: prod.splits sum.splits)
qed

lemma disk_teams_loop: "disk (snd (teams_loop L cs w)) = disk w"
  by (induction cs arbitrary: w) (auto split: sum.splits)

lemma disk_stage:
  assumes "\<And>rs w. disk (snd (loop rs w)) = disk w"
  shows "disk (snd (stage loop en d k w)) = disk w"
  by (simp add: stage_def assms split: option.splits sum.splits)

lemma disk_next_stage:
  assumes "\<And>w. disk (snd (f w)) = disk w"
  shows "disk (snd (next_stage r f)) = disk (snd r)"
  by (cases r) (simp add: next_stage_def assms split: option.splits)

lemma disk_activate: "disk (snd (activate L env_key v w)) = disk w"
  by (simp add: activate_def disk_next_stage disk_stage disk_custom_tools_loop disk_agents_loop
      disk_teams_loop split: sum.splits pyval.splits)

lemma disk_load_data: "disk (snd (load_data w)) = disk w"
  by (simp add: load_data_def read_file_def split: option.splits content.splits)

lemma disk_initialize: "disk (snd (initialize L env_key fs)) = fs"
  using disk_load_data [of "\<lparr>session_state = fresh_session env_key, disk = fs, shown = []\<rparr>"]
  by (auto simp: initialize_def disk_activate split: prod.splits)

lemma team_agents_members:
  "team_agents as tc = Inr found \<Longrightarrow> found \<noteq> [] \<Longrightarrow> \<exists>m. subscript tc ''members'' = Inr m"
proof (induction as arbitrary: found)
  case Nil
  then show ?case by simp
next
  case (Cons a as)
  then show ?case
    by (cases "item a ''name''"; cases "subscript tc ''members''") auto
qed

subsection \<open>The tool table\<close>

lemma table_get_set_str:
  "table_get (table_set t k v) (PStr n) = (if k = PStr n then Some v else table_get t (PStr n))"
  by (induction t) auto

lemma pick_tools_map_filter:
  "pick_tools t (map PStr names) = Inr (List.map_filter (\<lambda>n. table_get t (PStr n)) names)"
  by (induction names) (auto simp: List.map_filter_simps split: option.splits)

lemma add_custom_tools_append:
  "add_custom_tools (xs @ ys) t = thn (add_custom_tools xs t) (add_custom_tools ys)"
proof (induction xs arbitrary: t)
  case Nil
  show ?case by simp
next
  case (Cons x xs)
  show ?case
    by (cases "item x ''tool_obj''"; cases "item x ''name''") (simp_all add: Cons.IH)
qed

lemma add_custom_tools_registered:
  assumes "list_all registered cs"
  shows "\<exists>t'. add_custom_tools cs t = Inr t'"
  using assms
proof (induction cs arbitrary: t)
  case Nil
  show ?case by simp
next
  case (Cons c cs)
  then show ?case
    by (cases "item c ''name''"; cases "item c ''tool_obj''") (auto simp: registered_def)
qed

lemma add_custom_tools_not_named:
  assumes "list_all (\<lambda>c. registered c \<and> \<not> named n c) cs"
  shows "\<exists>t'. add_custom_tools cs t = Inr t' \<and> table_get t' (PStr n) = table_get t (PStr n)"
  using assms
proof (induction cs arbitrary: t)
  case Nil
  show ?case by simp
next
  case (Cons c cs)
  then obtain k v where c: "item c ''name'' = Inr k" "hashable k" "k \<noteq> PStr n"
    "item c ''tool_obj'' = Inr v"
    by (cases "item c ''name''"; cases "item c ''tool_obj''") (auto simp: registered_def named_def)
  from Cons have "list_all (\<lambda>c. registered c \<and> \<not> named n c) cs" by simp
  from Cons.IH [OF this, of "table_set t k v"] c show ?case
    by (simp add: table_get_set_str)
qed

subsection \<open>Names under the operations of the page\<close>

lemma session_report [simp]: "session_state (report m w) = session_state w"
  by (simp add: report_def)

lemma session_save_data [simp]: "session_state (snd (save_data w)) = session_state w"
  by (simp add: save_data_def write_json_def split: sum.splits prod.splits option.splits
      medium.splits)

lemma names_of_append [simp]: "names_of (xs @ ys) = names_of xs @ names_of ys"
  by (simp add: names_of_def)

lemma names_of_others: "names_of (others j xs) = others j (names_of xs)"
  by (simp add: names_of_def others_def take_map drop_map)

lemma distinct_others: "distinct xs \<Longrightarrow> distinct (others j xs)"
  by (simp add: others_def set_take_disj_set_drop_if_distinct)

lemma upd_conv_others:
  "j < length xs \<Longrightarrow> xs[j := v] = take j xs @ v # drop (Suc j) xs"
  by (simp add: upd_conv_take_nth_drop)

lemma distinct_names_update:
  assumes "distinct (names_of xs)" and "j < length xs"
    and "map_of r ''name'' \<notin> set (names_of (others j xs))"
  shows "distinct (names_of (xs[j := r]))"
proof -
  have "distinct (names_of (others j xs))"
    using assms(1) by (simp add: names_of_others distinct_others)
  then show ?thesis
    using assms(2,3)
    by (auto simp: upd_conv_others others_def names_of_def)
qed

lemma resolve_index_bound: "resolve_index n idx = Inr j \<Longrightarrow> j < n"
  by (cases idx) (auto simp: index_in_def Let_def split: if_splits)

lemma unique_names_simps [simp]:
  "unique_names (session_state (report m w)) = unique_names (session_state w)"
  "unique_names (session_state (set_editing_agent e w)) = unique_names (session_state w)"
  "unique_names (session_state (set_api_key k w)) = unique_names (session_state w)"
  by (simp_all add: unique_names_def report_def set_editing_agent_def set_api_key_def)

lemma form_agent_name: "form_agent L f key tools = Inr r \<Longrightarrow> map_of r ''name'' = Some (PStr (agent_name f))"
  by (auto simp: form_agent_def construct_def split: if_splits)

lemma form_team_name: "form_team L f ms = Inr r \<Longrightarrow> map_of r ''name'' = Some (PStr (team_name f))"
  by (auto simp: form_team_def construct_def split: if_splits)

lemma form_tool_name: "form_tool L f = Inr r \<Longrightarrow> map_of r ''name'' = Some (PStr (tool_name f))"
  by (auto simp: form_tool_def construct_def split: if_splits)

lemma submit_agent_unique:
  assumes "unique_names (session_state w)" and "submits_free_name (SubmitAgent table f) (session_state w)"
  shows "unique_names (session_state (snd (submit_agent L table f w)))"
proof -
  have store: "unique_names (session_state w')"
    if r: "form_agent L f k tools = Inr r" and st: "store_agent f r w = Inr w'" for k tools r w'
  proof (cases "editing (session_state w)")
    case None
    with st have "session_state w' = session_state (add_agent r w)"
      by (auto simp: store_agent_def)
    then show ?thesis
      using assms None form_agent_name [OF r]
      by (simp add: unique_names_def add_agent_def names_of_def)
  next
    case (Some e)
    with st obtain idx where i1: "item e ''index'' = Inr idx"
      by (cases "item e ''index''") (auto simp: store_agent_def)
    with st Some obtain xs where
      i2: "list_assign (agents (session_state w)) idx r = Inr xs"
      by (cases "list_assign (agents (session_state w)) idx r") (auto simp: store_agent_def)
    from st Some i1 i2 have
      i3: "session_state w' = session_state (set_editing_agent None (set_agents xs w))"
      by (auto simp: store_agent_def)
    note i = i1 i2 i3
    from i(2) obtain j where
      j: "resolve_index (length (agents (session_state w))) idx = Inr j"
         "xs = (agents (session_state w))[j := r]"
      by (cases "resolve_index (length (agents (session_state w))) idx")
         (auto simp: list_assign_def)
    have "map_of r ''name'' \<notin> set (names_of (others j (agents (session_state w))))"
      using assms(2) Some i(1) j(1) form_agent_name [OF r] by simp
    from distinct_names_update [OF _ resolve_index_bound [OF j(1)] this] assms(1)
    show ?thesis
      by (simp add: i(3) j(2) unique_names_def set_editing_agent_def set_agents_def)
  qed
  show ?thesis
  proof (cases "chosen_tools table (selected_tools f)")
    case (Inl e)
    then show ?thesis using assms(1) by (simp add: submit_agent_def)
  next
    case (Inr tools)
    show ?thesis
    proof (cases "form_agent L f (api_key (session_state w)) tools")
      case (Inl e)
      then show ?thesis using assms(1) Inr by (simp add: submit_agent_def)
    next
      case r: (Inr r)
      show ?thesis
      proof (cases "store_agent f r w")
        case (Inl e)
        then show ?thesis using assms(1) Inr r by (simp add: submit_agent_def)
      next
        case w': (Inr w')
        from store [OF r w'] show ?thesis
          using assms(1) Inr r w' by (simp add: submit_agent_def)
      qed
    qed
  qed
qed


lemma create_team_unique:
  assumes "unique_names (session_state w)" and "submits_free_name (CreateTeam f) (session_state w)"
  shows "unique_names (session_state (snd (create_team L f w)))"
proof (cases "selected_team_agents (agents (session_state w)) (selected_agents f)")
  case (Inl e)
  then show ?thesis using assms(1) by (simp add: create_team_def)
next
  case (Inr ms)
  show ?thesis
  proof (cases "form_team L f ms")
    case (Inl e)
    then show ?thesis using assms(1) Inr by (simp add: create_team_def)
  next
    case r: (Inr r)
    have "unique_names (session_state (add_team r w))"
      using assms form_team_name [OF r]
      by (simp add: unique_names_def add_team_def names_of_def)
    then show ?thesis using assms(1) Inr r by (simp add: create_team_def)
  qed
qed

lemma create_custom_tool_unique:
  assumes "unique_names (session_state w)"
    and "submits_free_name (CreateCustomTool f) (session_state w)"
  shows "unique_names (session_state (snd (create_custom_tool L f w)))"
proof (cases "form_tool L f")
  case (Inl e)
  then show ?thesis using assms(1) by (simp add: create_custom_tool_def)
next
  case r: (Inr r)
  have "unique_names (session_state (add_custom_tool r w))"
    using assms form_tool_name [OF r]
    by (simp add: unique_names_def add_custom_tool_def names_of_def)
  then show ?thesis using assms(1) r by (simp add: create_custom_tool_def)
qed

lemma delete_unique:
  assumes "unique_names (session_state w)"
  shows "unique_names (session_state (snd (delete_agent idx w)))"
    and "unique_names (session_state (snd (delete_team idx w)))"
    and "unique_names (session_state (snd (delete_custom_tool idx w)))"
  using assms
  by (auto simp: delete_agent_def delete_team_def delete_custom_tool_def list_pop_def
      unique_names_def set_agents_def set_teams_def set_custom_tools_def names_of_others
      distinct_others)

lemma perform_unique:
  assumes "unique_names (session_state w)" and "submits_free_name a (session_state w)"
  shows "unique_names (session_state (snd (perform L a w)))"
proof (cases a)
  case (EnterApiKey k)
  then show ?thesis using assms(1) by (simp add: enter_api_key_def)
next
  case SaveAll
  then show ?thesis using assms(1) by (simp add: save_all_def)
next
  case CancelEditing
  then show ?thesis using assms(1) by simp
next
  case (SubmitAgent table f)
  then show ?thesis using submit_agent_unique assms by simp
next
  case (CreateTeam f)
  then show ?thesis using create_team_unique assms by simp
next
  case (CreateCustomTool f)
  then show ?thesis using create_custom_tool_unique assms by simp
next
  case (EditAgent idx)
  then show ?thesis using assms(1) by (simp add: edit_agent_def)
next
  case ClearAllData
  then show ?thesis using assms(1) by (simp add: clear_all_data_def)
qed (use assms(1) delete_unique in simp_all)

section \<open>Properties of the PowerShell tool\<close>

text \<open>
  Claim C10. For every command string, once \<open>subprocess.run\<close> has returned the completed
  process, \<open>PowerShellTool.execute\<close> returns the captured standard output when it is not
  empty and the captured standard error otherwise; the exit status is not looked at:
  whatever status the process reports, the result is the same and is never a failure.
\<close>

theorem execute_stdout_or_stderr:
  assumes "run [''powershell'', ''-Command'', command] = Inr result"
  shows "execute run command = Inr (if stdout result \<noteq> [] then stdout result else stderr result)
       \<and> (\<forall>status. execute (\<lambda>argv. map_sum id (\<lambda>r. r\<lparr>returncode := status\<rparr>) (run argv)) command
              = execute run command)"
  using assms by (simp add: execute_def)

theorem execute_stdout_or_stderr_witness:
  "execute (\<lambda>argv. Inr \<lparr>returncode = 1, stdout = [], stderr = ''no such cmdlet''\<rparr>) ''Get-Foo''
     = Inr ''no such cmdlet''
   \<and> execute (\<lambda>argv. Inr \<lparr>returncode = 0, stdout = [], stderr = ''no such cmdlet''\<rparr>) ''Get-Foo''
     = Inr ''no such cmdlet''"
  using execute_stdout_or_stderr
    [of "\<lambda>argv. Inr \<lparr>returncode = 1, stdout = [], stderr = ''no such cmdlet''\<rparr>" "''Get-Foo''"
        "\<lparr>returncode = 1, stdout = [], stderr = ''no such cmdlet''\<rparr>"]
  by (simp add: execute_def)

section \<open>Properties of saving and loading\<close>



text \<open>
  Claim C8. For every in-memory workspace, \<open>save_data\<close> leaves the session state as it
  was; when writing fails, because the file cannot be opened or cannot be written, the
  error is caught: \<open>save_data\<close> returns \<open>False\<close> instead of raising and shows one
  message for the error.
\<close>

theorem save_data_failure_is_contained:
  "session_state (snd (save_data w)) = session_state w
   \<and> (medium (disk w) \<noteq> Writable \<longrightarrow>
        fst (save_data w) = False
      \<and> (\<exists>e. shown (snd (save_data w)) = shown w @ [SaveFailed e]))"
  by (auto simp: save_data_def report_def write_json_def
      split: sum.splits option.splits prod.splits medium.splits)

theorem save_data_failure_is_contained_witness:
  "session_state (snd (save_data (read_only example_world))) = session_state example_world
   \<and> fst (save_data (read_only example_world)) = False
   \<and> (\<exists>e. shown (snd (save_data (read_only example_world))) = [SaveFailed e])"
proof -
  have 1: "medium (disk (read_only example_world)) \<noteq> Writable"
    by (simp add: read_only_def)
  have 2: "session_state (read_only example_world) = session_state example_world"
    by (simp add: read_only_def)
  have 3: "shown (read_only example_world) = []"
    by (simp add: example_defs run_defs)
  show ?thesis
    using save_data_failure_is_contained [of "read_only example_world"] 1 2 3 by simp
qed

section \<open>Properties of the start of a session\<close>

text \<open>
  Claim C2, as amended. For every storage from which nothing is loaded (no file, a file
  that cannot be read or parsed, or a document that Python takes for false) the session
  starts from the empty workspace, no exception leaves the start of the session and the
  storage is untouched. A well-formed document whose values have the wrong types is not
  covered: it is applied as far as it can be read.
\<close>

theorem unreadable_document_abandoned:
  assumes "abandoned fs"
  shows "fst (initialize L env_key fs) = None
       \<and> session_state (snd (initialize L env_key fs)) = fresh_session env_key
       \<and> disk (snd (initialize L env_key fs)) = fs"
  using assms
  by (auto simp: abandoned_def initialize_def load_data_def read_file_def activate_def report_def
      split: option.splits content.splits)

theorem unreadable_document_abandoned_witness:
  "fst (initialize accept_all [] \<lparr>json_file = Some Unreadable, pkl_file = None, medium = Writable\<rparr>)
     = None
   \<and> session_state
       (snd (initialize accept_all []
               \<lparr>json_file = Some Unreadable, pkl_file = None, medium = Writable\<rparr>))
     = \<lparr>agents = [], teams = [], custom_tools = [], api_key = PStr [], editing_agent = None\<rparr>"
proof -
  have "abandoned \<lparr>json_file = Some Unreadable, pkl_file = None, medium = Writable\<rparr>"
    by (simp add: abandoned_def)
  from unreadable_document_abandoned [OF this, of accept_all "[]"] show ?thesis
    by (simp add: fresh_session_def)
qed

text \<open>The claim as stated fails on a document with a value of the wrong type: here
  \<open>agents\<close> is the number 5. The custom tool before it is reconstructed and stays in the
  session, and the \<open>TypeError\<close> of the loop over the number leaves the start of the
  session.\<close>

theorem wrong_type_document_counterexample:
  "fst (initialize accept_all []
         (stored (PDict [(''custom_tools'', PList [tool_rec ''double'']), (''agents'', PInt 5),
                         (''api_key'', PStr ''sk-test'')])))
     = Some TypeError
   \<and> names_of
       (custom_tools (session_state (snd (initialize accept_all []
         (stored (PDict [(''custom_tools'', PList [tool_rec ''double'']), (''agents'', PInt 5),
                         (''api_key'', PStr ''sk-test'')]))))))
     = [Some (PStr ''double'')]"
  by (simp add: example_defs run_defs names_of_def)

text \<open>
  Claim C3, as amended. A team whose member names resolve to fewer than two agents of the
  session is skipped without a trace: the loop goes on exactly as if the team were not in
  the document, so no team is constructed and nothing is shown. A team with exactly two
  resolved members is constructed and stored with its live object, provided its name and
  instructions can be read and the library's constructor returns. Starting a session
  never changes the stored files, so the team's record is still in the document after
  activation; it stays there until the next successful save, which writes the teams of
  the session and no others.
\<close>

theorem team_activation_threshold:
  "(team_agents (agents (session_state w)) lonely = Inr few \<and> length few < 2 \<longrightarrow>
      teams_loop L (lonely # rest) w = teams_loop L rest w)
   \<and> (team_agents (agents (session_state w)) team_config = Inr found \<and> length found = 2
        \<and> subscript team_config ''name'' = Inr nm
        \<and> subscript team_config ''instructions'' = Inr ins
        \<and> L ''Agent'' [(''name'', nm), (''team'', PList found), (''instructions'', ins),
                        (''show_tool_calls'', PBool True), (''markdown'', PBool True)] \<longrightarrow>
      (\<exists>r. teams_loop L (team_config # rest) w = teams_loop L rest (add_team r w)
          \<and> map_of r ''name'' = Some nm
          \<and> map_of r ''team'' =
              Some (PObj ''Agent'' [(''name'', nm), (''team'', PList found),
                     (''instructions'', ins),
                     (''show_tool_calls'', PBool True), (''markdown'', PBool True)])))
   \<and> disk (snd (initialize L env_key fs)) = fs
   \<and> (fst (save_data w') \<longrightarrow>
        (\<exists>tms. stored_teams (disk (snd (save_data w'))) = Some tms
           \<and> map (\<lambda>t. subscript t ''name'') tms
               = map (\<lambda>r. item r ''name'') (teams (session_state w'))))"
proof (intro conjI impI)
  assume "team_agents (agents (session_state w)) lonely = Inr few \<and> length few < 2"
  then show "teams_loop L (lonely # rest) w = teams_loop L rest w" by simp
next
  let ?kw = "[(''name'', nm), (''team'', PList found), (''instructions'', ins),
              (''show_tool_calls'', PBool True), (''markdown'', PBool True)]"
  assume h: "team_agents (agents (session_state w)) team_config = Inr found \<and> length found = 2
        \<and> subscript team_config ''name'' = Inr nm
        \<and> subscript team_config ''instructions'' = Inr ins
        \<and> L ''Agent'' ?kw"
  then have "found \<noteq> []" by auto
  with h team_agents_members obtain m where m: "subscript team_config ''members'' = Inr m"
    by blast
  from h obtain d where d: "team_config = PDict d" by (cases team_config) auto
  let ?r = "[(''name'', nm), (''members'', m), (''instructions'', ins),
             (''workflow'', get_or d ''workflow'' (PStr ''Sequential'')),
             (''team'', PObj ''Agent'' ?kw)]"
  have "team_entry L team_config found = Inr ?r"
    using h m d by (simp add: team_entry_def construct_def get_or_def split: option.splits)
  with h have "teams_loop L (team_config # rest) w = teams_loop L rest (add_team ?r w)" by simp
  then show "\<exists>r. teams_loop L (team_config # rest) w = teams_loop L rest (add_team r w)
          \<and> map_of r ''name'' = Some nm
          \<and> map_of r ''team'' = Some (PObj ''Agent'' ?kw)"
    by (intro exI [of _ ?r]) simp
next
  show "disk (snd (initialize L env_key fs)) = fs" by (rule disk_initialize)
next
  assume "fst (save_data w')"
  then show "\<exists>tms. stored_teams (disk (snd (save_data w'))) = Some tms
           \<and> map (\<lambda>t. subscript t ''name'') tms
               = map (\<lambda>r. item r ''name'') (teams (session_state w'))"
    by (rule save_data_stored_teams)
qed

text \<open>In the example workspace a team of \<open>A\<close> and an unknown agent is passed over, a
  team of \<open>A\<close> and \<open>B\<close> is added, the start leaves the storage alone, and a save writes
  the one team of the session.\<close>

theorem team_activation_threshold_witness:
  "teams_loop accept_all [team_rec ''U'' [''A'', ''ghost'']] example_world = (None, example_world)
   \<and> (\<exists>r. teams_loop accept_all [team_rec ''V'' [''A'', ''B'']] example_world
              = (None, add_team r example_world)
          \<and> map_of r ''name'' = Some (PStr ''V''))
   \<and> disk (snd (initialize accept_all [] (stored example_document))) = stored example_document
   \<and> (\<exists>tms. stored_teams (disk (snd (save_data example_world))) = Some tms
          \<and> map (\<lambda>t. subscript t ''name'') tms = [Inr (PStr ''T'')])"
proof -
  have "\<exists>few. team_agents (agents (session_state example_world)) (team_rec ''U'' [''A'', ''ghost''])
                 = Inr few \<and> length few < 2"
    by (simp add: example_defs item_def)
  then obtain few where
    1: "team_agents (agents (session_state example_world)) (team_rec ''U'' [''A'', ''ghost''])
          = Inr few \<and> length few < 2"
    by blast
  have "\<exists>found. team_agents (agents (session_state example_world)) (team_rec ''V'' [''A'', ''B''])
                 = Inr found \<and> length found = 2"
    by (simp add: example_defs item_def)
  then obtain found where
    2: "team_agents (agents (session_state example_world)) (team_rec ''V'' [''A'', ''B''])
          = Inr found \<and> length found = 2"
    by blast
  have 3: "subscript (team_rec ''V'' [''A'', ''B'']) ''name'' = Inr (PStr ''V'')
         \<and> subscript (team_rec ''V'' [''A'', ''B'']) ''instructions''
             = Inr (PList [PStr ''Work in turn''])"
    by (simp add: team_rec_def team_dict_def)
  have 4: "accept_all ''Agent''
             [(''name'', PStr ''V''), (''team'', PList found),
              (''instructions'', PList [PStr ''Work in turn'']),
              (''show_tool_calls'', PBool True), (''markdown'', PBool True)]"
    by (simp add: accept_all_def)
  have 5: "fst (save_data example_world)"
    by (simp add: example_defs save_data_def build_data_def saved_agent_def saved_team_def
        saved_custom_tool_def write_json_def item_def get_or_def)
  have 6: "map (\<lambda>r. item r ''name'') (teams (session_state example_world)) = [Inr (PStr ''T'')]"
    by (simp add: example_defs item_def)
  note threshold = team_activation_threshold
      [of example_world "team_rec ''U'' [''A'', ''ghost'']" few accept_all "[]"
          "team_rec ''V'' [''A'', ''B'']" found "PStr ''V''" "PList [PStr ''Work in turn'']"
          "[]" "stored example_document" example_world]
  from threshold 1 have a:
    "teams_loop accept_all [team_rec ''U'' [''A'', ''ghost'']] example_world
       = teams_loop accept_all [] example_world"
    by blast
  from threshold 2 3 4 have b:
    "\<exists>r. teams_loop accept_all [team_rec ''V'' [''A'', ''B'']] example_world
            = teams_loop accept_all [] (add_team r example_world)
        \<and> map_of r ''name'' = Some (PStr ''V'')"
    by blast
  from threshold have c:
    "disk (snd (initialize accept_all [] (stored example_document))) = stored example_document"
    by blast
  from threshold 5 have d:
    "\<exists>tms. stored_teams (disk (snd (save_data example_world))) = Some tms
        \<and> map (\<lambda>t. subscript t ''name'') tms
            = map (\<lambda>r. item r ''name'') (teams (session_state example_world))"
    by blast
  show ?thesis
    using a b c d unfolding 6 by simp
qed

text \<open>The claim as stated fails where it says the skipped team is reported: the team
  \<open>U\<close> names agent \<open>A\<close> and an agent that does not exist, it is skipped, and the page
  shows nothing. The first save after that start writes a document without the team.\<close>

theorem skipped_team_not_reported_counterexample:
  "fst (initialize accept_all []
          (stored (document [agent_rec ''A'' []] [team_rec ''U'' [''A'', ''ghost'']] []))) = None
   \<and> teams (session_state (snd (initialize accept_all []
          (stored (document [agent_rec ''A'' []] [team_rec ''U'' [''A'', ''ghost'']] []))))) = []
   \<and> shown (snd (initialize accept_all []
          (stored (document [agent_rec ''A'' []] [team_rec ''U'' [''A'', ''ghost'']] [])))) = []
   \<and> stored_teams (stored (document [agent_rec ''A'' []] [team_rec ''U'' [''A'', ''ghost'']] []))
       = Some [team_rec ''U'' [''A'', ''ghost'']]
   \<and> stored_teams (disk (snd (save_data (snd (initialize accept_all []
          (stored (document [agent_rec ''A'' []] [team_rec ''U'' [''A'', ''ghost'']] []))))))) = Some []"
  by (simp add: example_defs run_defs stored_teams_def save_data_def build_data_def
      saved_agent_def write_json_def)

section \<open>Properties of tool resolution\<close>

text \<open>
  Claim C6. For every agent record that has its name, role and instructions and whose
  tool list is a list of names, in a session whose tool table can be built, the agent is
  reconstructed whenever the library's constructors return: its tools are the objects of
  exactly the names found in the table (built-in or custom), in the order of the list,
  and every other name is dropped without a message.
\<close>

theorem dangling_tool_names_dropped:
  assumes "available_tools L (session_state w) = Inr table"
    and "map_of d ''tools'' = Some (PList (map PStr names))"
    and "map_of d ''name'' = Some nm"
    and "map_of d ''role'' = Some rl"
    and "map_of d ''instructions'' = Some ins"
    and "resolved = List.map_filter (\<lambda>n. table_get table (PStr n)) names"
    and "L ''OpenAIChat'' [(''id'', get_or d ''model'' (PStr ''gpt-4'')), (''api_key'', key)]"
    and "L ''Agent''
           [(''name'', nm), (''role'', rl),
            (''model'', PObj ''OpenAIChat''
                          [(''id'', get_or d ''model'' (PStr ''gpt-4'')), (''api_key'', key)]),
            (''tools'', PList resolved), (''instructions'', ins),
            (''show_tool_calls'', get_or d ''show_tool_calls'' (PBool True)),
            (''markdown'', get_or d ''markdown'' (PBool True)),
            (''temperature'', get_or d ''temperature'' (PFloat (7 / 10)))]"
  shows "recreate_agent_from_config L (PDict d) key w =
           (Inr (PObj ''Agent''
             [(''name'', nm), (''role'', rl),
              (''model'', PObj ''OpenAIChat''
                            [(''id'', get_or d ''model'' (PStr ''gpt-4'')), (''api_key'', key)]),
              (''tools'', PList resolved), (''instructions'', ins),
              (''show_tool_calls'', get_or d ''show_tool_calls'' (PBool True)),
              (''markdown'', get_or d ''markdown'' (PBool True)),
              (''temperature'', get_or d ''temperature'' (PFloat (7 / 10)))]), w)"
proof -
  have g: "\<And>k v. get (PDict d) k v = Inr (get_or d k v)"
    by (simp add: get_or_def split: option.splits)
  show ?thesis
    using assms(7,8)
    by (simp add: recreate_agent_from_config_def agent_object_def assms(1-5) g
        pick_tools_map_filter assms(6) [symmetric] construct_def del: get.simps)
qed

text \<open>An agent that lists the custom tool, a name that resolves to nothing and a
  built-in tool gets the two tools that exist, in that order.\<close>

theorem dangling_tool_names_dropped_witness:
  "recreate_agent_from_config accept_all (agent_rec ''C'' [''double'', ''ghost'', ''Calculator''])
     (PStr ''sk-test'') example_world
   = (Inr (live_agent_object ''C'' [tool_object ''double'', PObj ''CalculatorTool'' []]),
      example_world)"
proof -
  let ?table = "[(PStr ''Web Search'', PObj ''SearchSummaryTool'' []),
                 (PStr ''Web Scraper'', PObj ''WebScraperTool'' []),
                 (PStr ''Calculator'', PObj ''CalculatorTool'' []),
                 (PStr ''double'', tool_object ''double'')]"
  let ?d = "agent_dict ''C'' [''double'', ''ghost'', ''Calculator'']"
  let ?resolved = "[tool_object ''double'', PObj ''CalculatorTool'' []]"
  have 1: "available_tools accept_all (session_state example_world) = Inr ?table"
    by (simp add: example_defs available_tools_def builtin_tools_def construct_def item_def)
  have 2: "map_of ?d ''tools'' = Some (PList (map PStr [''double'', ''ghost'', ''Calculator'']))"
    and 3: "map_of ?d ''name'' = Some (PStr ''C'')"
    and 4: "map_of ?d ''role'' = Some (PStr ''helper'')"
    and 5: "map_of ?d ''instructions'' = Some (PList [PStr ''Be brief''])"
    by (simp_all add: agent_dict_def)
  have 6: "?resolved =
             List.map_filter (\<lambda>n. table_get ?table (PStr n)) [''double'', ''ghost'', ''Calculator'']"
    by (simp add: List.map_filter_simps)
  have 7: "accept_all ''OpenAIChat''
             [(''id'', get_or ?d ''model'' (PStr ''gpt-4'')), (''api_key'', PStr ''sk-test'')]"
    by (simp add: accept_all_def)
  have 8: "accept_all ''Agent''
             [(''name'', PStr ''C''), (''role'', PStr ''helper''),
              (''model'', PObj ''OpenAIChat''
                 [(''id'', get_or ?d ''model'' (PStr ''gpt-4'')), (''api_key'', PStr ''sk-test'')]),
              (''tools'', PList ?resolved), (''instructions'', PList [PStr ''Be brief'']),
              (''show_tool_calls'', get_or ?d ''show_tool_calls'' (PBool True)),
              (''markdown'', get_or ?d ''markdown'' (PBool True)),
              (''temperature'', get_or ?d ''temperature'' (PFloat (7 / 10)))]"
    by (simp add: accept_all_def)
  from dangling_tool_names_dropped [OF 1 2 3 4 5 6 7 8] show ?thesis
    by (simp add: agent_rec_def live_agent_object_def get_or_def agent_dict_def)
qed

text \<open>
  Claim C7. When a custom tool of the session carries the name of a built-in tool (or any
  name), and no custom tool registered after it carries the same name, the tool table
  maps the name to that custom tool's object, and resolving the name for an agent yields
  that object: the entry registered last wins over the built-in one.
\<close>

theorem custom_tool_shadows_builtin:
  assumes "builtin_tools L = Inr builtins"
    and "custom_tools s = before @ c # after"
    and "list_all registered before"
    and "item c ''name'' = Inr (PStr n)"
    and "item c ''tool_obj'' = Inr tool_obj"
    and "list_all (\<lambda>c'. registered c' \<and> \<not> named n c') after"
  shows "\<exists>table. available_tools L s = Inr table
           \<and> table_get table (PStr n) = Some tool_obj
           \<and> pick_tools table [PStr n] = Inr [tool_obj]"
proof -
  from add_custom_tools_registered [OF assms(3)] obtain t1 where
    1: "add_custom_tools before builtins = Inr t1" by blast
  from add_custom_tools_not_named [OF assms(6)] obtain t2 where
    2: "add_custom_tools after (table_set t1 (PStr n) tool_obj) = Inr t2"
       "table_get t2 (PStr n) = table_get (table_set t1 (PStr n) tool_obj) (PStr n)" by blast
  have "add_custom_tools (c # after) t1 = Inr t2"
    using assms(4,5) 2(1) by simp
  then have "available_tools L s = Inr t2"
    by (simp add: available_tools_def assms(1,2) add_custom_tools_append 1)
  moreover have "table_get t2 (PStr n) = Some tool_obj"
    by (simp add: 2(2) table_get_set_str)
  ultimately show ?thesis by simp
qed

text \<open>In the session whose custom tool is called \<open>Calculator\<close>, the name resolves to the
  custom \<open>DynamicTool\<close> object, while the built-in table alone maps it to the library's
  \<open>CalculatorTool\<close>.\<close>

theorem custom_tool_shadows_builtin_witness:
  "(\<exists>table. available_tools accept_all shadow_session = Inr table
       \<and> table_get table (PStr ''Calculator'') = Some (tool_object ''Calculator'')
       \<and> pick_tools table [PStr ''Calculator''] = Inr [tool_object ''Calculator''])
   \<and> (\<exists>builtins. builtin_tools accept_all = Inr builtins
       \<and> table_get builtins (PStr ''Calculator'') = Some (PObj ''CalculatorTool'' []))
   \<and> tool_object ''Calculator'' \<noteq> PObj ''CalculatorTool'' []"
proof -
  let ?builtins = "[(PStr ''Web Search'', PObj ''SearchSummaryTool'' []),
                    (PStr ''Web Scraper'', PObj ''WebScraperTool'' []),
                    (PStr ''Calculator'', PObj ''CalculatorTool'' [])]"
  have 1: "builtin_tools accept_all = Inr ?builtins"
    by (simp add: builtin_tools_def construct_def accept_all_def)
  have 2: "custom_tools shadow_session = [] @ live_tool ''Calculator'' # []"
    by (simp add: shadow_session_def)
  have 3: "list_all registered []"
    by simp
  have 4: "item (live_tool ''Calculator'') ''name'' = Inr (PStr ''Calculator'')"
    and 5: "item (live_tool ''Calculator'') ''tool_obj'' = Inr (tool_object ''Calculator'')"
    by (simp_all add: live_tool_def tool_dict_def item_def)
  have 6: "list_all (\<lambda>c'. registered c' \<and> \<not> named ''Calculator'' c') []"
    by simp
  have 7: "table_get ?builtins (PStr ''Calculator'') = Some (PObj ''CalculatorTool'' [])"
    by simp
  have 8: "tool_object ''Calculator'' \<noteq> PObj ''CalculatorTool'' []"
    by (simp add: tool_object_def)
  from custom_tool_shadows_builtin [OF 1 2 3 4 5 6] 1 7 8 show ?thesis
    by simp
qed

section \<open>Properties of the order of activation\<close>

text \<open>
  Claim C5. Activation processes custom tools, then agents, then teams, and the failure of
  a single record is to be reported, not raised, without preventing the reconstruction of
  the other records. The code does otherwise on an agent record that has no name: the
  constructor call in \<open>recreate_agent_from_config\<close> raises \<open>KeyError\<close> on
  \<open>agent_config['name']\<close>, the handler reads \<open>agent_config['name']\<close> again to build its
  message and raises \<open>KeyError\<close> itself, and that exception leaves the loop over the agents
  and the start of the session. On the document below the custom tool is reconstructed,
  nothing is reported, and neither the agents \<open>B\<close> and \<open>C\<close> that follow the nameless
  record nor their team are reconstructed; on the same document without the nameless
  record all of them are.
\<close>

theorem nameless_agent_stops_activation:
  "fst (initialize accept_all []
          (stored (document [nameless_agent, agent_rec ''B'' [], agent_rec ''C'' []]
                     [team_rec ''T'' [''B'', ''C'']] [tool_rec ''double''])))
     = Some (KeyError ''name'')
   \<and> shown (snd (initialize accept_all []
          (stored (document [nameless_agent, agent_rec ''B'' [], agent_rec ''C'' []]
                     [team_rec ''T'' [''B'', ''C'']] [tool_rec ''double'']))))
       = []
   \<and> names_of (custom_tools (session_state (snd (initialize accept_all []
          (stored (document [nameless_agent, agent_rec ''B'' [], agent_rec ''C'' []]
                     [team_rec ''T'' [''B'', ''C'']] [tool_rec ''double'']))))))
       = [Some (PStr ''double'')]
   \<and> agents (session_state (snd (initialize accept_all []
          (stored (document [nameless_agent, agent_rec ''B'' [], agent_rec ''C'' []]
                     [team_rec ''T'' [''B'', ''C'']] [tool_rec ''double''])))))
       = []
   \<and> teams (session_state (snd (initialize accept_all []
          (stored (document [nameless_agent, agent_rec ''B'' [], agent_rec ''C'' []]
                     [team_rec ''T'' [''B'', ''C'']] [tool_rec ''double''])))))
       = []
   \<and> fst (initialize accept_all []
          (stored (document [agent_rec ''B'' [], agent_rec ''C'' []]
                     [team_rec ''T'' [''B'', ''C'']] [tool_rec ''double''])))
       = None
   \<and> names_of (agents (session_state (snd (initialize accept_all []
          (stored (document [agent_rec ''B'' [], agent_rec ''C'' []]
                     [team_rec ''T'' [''B'', ''C'']] [tool_rec ''double'']))))))
       = [Some (PStr ''B''), Some (PStr ''C'')]
   \<and> names_of (teams (session_state (snd (initialize accept_all []
          (stored (document [agent_rec ''B'' [], agent_rec ''C'' []]
                     [team_rec ''T'' [''B'', ''C'']] [tool_rec ''double'']))))))
       = [Some (PStr ''T'')]"
  by (simp add: example_defs run_defs names_of_def)

section \<open>Properties of record names\<close>

text \<open>
  Claim C4, as amended. The branches of the page never compare a submitted name with the
  names already stored. Names are unique within each of the three lists after every
  sequence of operations (create, update, delete, edit, clear, save) that starts from
  unique names and in which every creation submits a name no record of its list holds and
  every update a name no other record of its list holds.
\<close>

theorem names_stay_unique:
  assumes "unique_names (session_state w)" and "free_names_along L as w"
  shows "unique_names (session_state (perform_all L as w))"
  using assms
proof (induction as arbitrary: w)
  case Nil
  then show ?case by simp
next
  case (Cons a as)
  from Cons.prems have "unique_names (session_state (snd (perform L a w)))"
    by (simp add: perform_unique)
  with Cons show ?case by simp
qed

text \<open>Two agents are created, \<open>Clear All Data\<close> is pressed and leaves them, the first is
  opened for editing and updated under its own name, the second is deleted.\<close>

theorem names_stay_unique_witness:
  "unique_names (session_state (perform_all accept_all
     [SubmitAgent builtin_table agent_A_form, SubmitAgent builtin_table agent_B_form,
      ClearAllData, EditAgent 0, SubmitAgent builtin_table agent_A_form, DeleteAgent 1]
     keyed_world))
   \<and> names_of (agents (session_state (perform_all accept_all
     [SubmitAgent builtin_table agent_A_form, SubmitAgent builtin_table agent_B_form,
      ClearAllData] keyed_world))) = [Some (PStr ''A''), Some (PStr ''B'')]
   \<and> names_of (agents (session_state (perform_all accept_all
     [SubmitAgent builtin_table agent_A_form, SubmitAgent builtin_table agent_B_form,
      ClearAllData, EditAgent 0, SubmitAgent builtin_table agent_A_form, DeleteAgent 1]
     keyed_world))) = [Some (PStr ''A'')]"
proof -
  have 1: "unique_names (session_state keyed_world)"
    by (simp add: keyed_world_def fresh_session_def unique_names_def names_of_def)
  have 2: "free_names_along accept_all
     [SubmitAgent builtin_table agent_A_form, SubmitAgent builtin_table agent_B_form,
      ClearAllData, EditAgent 0, SubmitAgent builtin_table agent_A_form, DeleteAgent 1]
     keyed_world"
    by (simp add: example_defs run_defs form_defs)
  have 3: "names_of (agents (session_state (perform_all accept_all
     [SubmitAgent builtin_table agent_A_form, SubmitAgent builtin_table agent_B_form,
      ClearAllData] keyed_world))) = [Some (PStr ''A''), Some (PStr ''B'')]"
    by (simp add: example_defs run_defs form_defs)
  have 4: "names_of (agents (session_state (perform_all accept_all
     [SubmitAgent builtin_table agent_A_form, SubmitAgent builtin_table agent_B_form,
      ClearAllData, EditAgent 0, SubmitAgent builtin_table agent_A_form, DeleteAgent 1]
     keyed_world))) = [Some (PStr ''A'')]"
    by (simp add: example_defs run_defs form_defs)
  from names_stay_unique [OF 1 2] 3 4 show ?thesis
    by simp
qed

text \<open>The claim as stated fails: submitting the agent form twice with the same name
  stores two agents called \<open>A\<close>. The dictionary of tools is the one the script builds
  in this session, before and after the first submission.\<close>

theorem duplicate_agent_name_counterexample:
  "available_tools accept_all (session_state keyed_world) = Inr builtin_table
   \<and> available_tools accept_all (session_state (perform_all accept_all
        [SubmitAgent builtin_table agent_A_form] keyed_world)) = Inr builtin_table
   \<and> names_of (agents (session_state (perform_all accept_all
        [SubmitAgent builtin_table agent_A_form, SubmitAgent builtin_table agent_A_form]
        keyed_world)))
       = [Some (PStr ''A''), Some (PStr ''A'')]
   \<and> \<not> unique_names (session_state (perform_all accept_all
        [SubmitAgent builtin_table agent_A_form, SubmitAgent builtin_table agent_A_form]
        keyed_world))"
  by (simp add: example_defs run_defs form_defs)

section \<open>Properties of running a custom tool\<close>

text \<open>
  Claim C9, as amended. For every stored function body and every argument mapping without
  a key named \<open>self\<close>: when executing the body raises an exception derived from
  \<open>Exception\<close> whose text is \<open>t\<close>, \<open>execute\<close> returns the string \<open>Error: \<close> followed by
  \<open>t\<close>. When the body completes, the local variables are formatted in every case; if that
  yields the text \<open>s\<close>, \<open>execute\<close> returns \<open>s\<close> when no variable named \<open>result\<close> is
  bound and the value of \<open>result\<close> when one is; if the formatting raises an exception
  derived from \<open>Exception\<close> with text \<open>t\<close>, \<open>execute\<close> returns \<open>Error: \<close> followed by \<open>t\<close>,
  also when \<open>result\<close> is bound. These are the only ways in which \<open>execute\<close> returns a
  value: it is not total.
\<close>

theorem dynamic_execute_returns:
  assumes "''self'' \<notin> set (map fst kwargs)"
  shows
  "(py_exec code kwargs = Raises (Exception (Text t)) \<longrightarrow>
      dynamic_execute py_exec py_str code kwargs = Returns (PStr (''Error: '' @ t)))
   \<and> (py_exec code kwargs = Finished final \<and> py_str final = Text s
        \<and> map_of final ''result'' = None \<longrightarrow>
      dynamic_execute py_exec py_str code kwargs = Returns (PStr s))
   \<and> (py_exec code kwargs = Finished final \<and> py_str final = Text s
        \<and> map_of final ''result'' = Some v \<longrightarrow>
      dynamic_execute py_exec py_str code kwargs = Returns v)
   \<and> (py_exec code kwargs = Finished final \<and> py_str final = StrRaises (Exception (Text t)) \<longrightarrow>
      dynamic_execute py_exec py_str code kwargs = Returns (PStr (''Error: '' @ t)))
   \<and> ((\<exists>r. dynamic_execute py_exec py_str code kwargs = Returns r) \<longleftrightarrow>
        (\<exists>t'. py_exec code kwargs = Raises (Exception (Text t')))
        \<or> (\<exists>final' s'. py_exec code kwargs = Finished final'
              \<and> (py_str final' = Text s' \<or> py_str final' = StrRaises (Exception (Text s')))))"
proof -
  have raise_returns: "(\<exists>r. on_raise x = Returns r) \<longleftrightarrow> (\<exists>t'. x = Exception (Text t'))" for x
  proof (cases x)
    case (Exception o')
    then show ?thesis by (cases o') simp_all
  next
    case (BaseException c)
    then show ?thesis by simp
  qed
  have returns: "(\<exists>r. dynamic_execute py_exec py_str code kwargs = Returns r) \<longleftrightarrow>
        (\<exists>t'. py_exec code kwargs = Raises (Exception (Text t')))
        \<or> (\<exists>final' s'. py_exec code kwargs = Finished final'
              \<and> (py_str final' = Text s' \<or> py_str final' = StrRaises (Exception (Text s'))))"
  proof (cases "py_exec code kwargs")
    case (Finished final')
    show ?thesis
    proof (cases "py_str final'")
      case (Text s')
      with Finished assms show ?thesis by (simp add: dynamic_execute_def)
    next
      case (StrRaises x)
      with Finished assms raise_returns [of x] show ?thesis
        by (simp add: dynamic_execute_def)
    next
      case StrDiverges
      with Finished assms show ?thesis by (simp add: dynamic_execute_def)
    qed
  next
    case (Raises x)
    with assms raise_returns [of x] show ?thesis by (simp add: dynamic_execute_def)
  next
    case Diverges
    with assms show ?thesis by (simp add: dynamic_execute_def)
  qed
  have first: "py_exec code kwargs = Raises (Exception (Text t)) \<longrightarrow>
      dynamic_execute py_exec py_str code kwargs = Returns (PStr (''Error: '' @ t))"
    using assms by (simp add: dynamic_execute_def)
  have second: "py_exec code kwargs = Finished final \<and> py_str final = Text s
        \<and> map_of final ''result'' = None \<longrightarrow>
      dynamic_execute py_exec py_str code kwargs = Returns (PStr s)"
    using assms by (simp add: dynamic_execute_def get_or_def)
  have third: "py_exec code kwargs = Finished final \<and> py_str final = Text s
        \<and> map_of final ''result'' = Some v \<longrightarrow>
      dynamic_execute py_exec py_str code kwargs = Returns v"
    using assms by (simp add: dynamic_execute_def get_or_def)
  have fourth: "py_exec code kwargs = Finished final
        \<and> py_str final = StrRaises (Exception (Text t)) \<longrightarrow>
      dynamic_execute py_exec py_str code kwargs = Returns (PStr (''Error: '' @ t))"
    using assms by (simp add: dynamic_execute_def)
  from first second third fourth returns show ?thesis by blast
qed

theorem dynamic_execute_returns_witness:
  "dynamic_execute sample_exec sample_str (PStr ''x = 1 / 0'') []
     = Returns (PStr ''Error: division by zero'')
   \<and> dynamic_execute sample_exec sample_str (PStr ''pass'') [] = Returns (PStr ''{}'')
   \<and> dynamic_execute sample_exec sample_str (PStr ''pass'') [(''result'', PInt 4)]
       = Returns (PInt 4)
   \<and> dynamic_execute sample_exec sample_str (PStr ''pass'')
        [(''result'', PInt 4), (''x'', unprintable)]
       = Returns (PStr ''Error: no repr'')"
proof -
  have 0: "''self'' \<notin> set (map fst ([] :: dict))"
          "''self'' \<notin> set (map fst [(''result'', PInt 4)])"
          "''self'' \<notin> set (map fst [(''result'', PInt 4), (''x'', unprintable)])"
    by simp_all
  have 1: "sample_exec (PStr ''x = 1 / 0'') [] = Raises (Exception (Text ''division by zero''))"
    by (simp add: sample_exec_def)
  have 2: "sample_exec (PStr ''pass'') [] = Finished [] \<and> sample_str [] = Text ''{}''
         \<and> map_of ([] :: dict) ''result'' = None"
    by (simp add: sample_exec_def sample_str_def)
  have 3: "sample_exec (PStr ''pass'') [(''result'', PInt 4)] = Finished [(''result'', PInt 4)]
         \<and> sample_str [(''result'', PInt 4)]
             = Text (''{'' @ [CHR 0x27] @ ''result'' @ [CHR 0x27] @ '': 4}'')
         \<and> map_of [(''result'', PInt 4)] ''result'' = Some (PInt 4)"
    by (simp add: sample_exec_def sample_str_def)
  have 4: "sample_exec (PStr ''pass'') [(''result'', PInt 4), (''x'', unprintable)]
             = Finished [(''result'', PInt 4), (''x'', unprintable)]
         \<and> sample_str [(''result'', PInt 4), (''x'', unprintable)]
             = StrRaises (Exception (Text ''no repr''))"
    by (simp add: sample_exec_def sample_str_def unprintable_def)
  from dynamic_execute_returns [OF 0(1), of sample_exec "PStr ''x = 1 / 0''"
         "''division by zero''" sample_str] 1
  have a: "dynamic_execute sample_exec sample_str (PStr ''x = 1 / 0'') []
             = Returns (PStr (''Error: '' @ ''division by zero''))"
    by blast
  from dynamic_execute_returns [OF 0(1), of sample_exec "PStr ''pass''" _ sample_str
         "[]" "''{}''"] 2
  have b: "dynamic_execute sample_exec sample_str (PStr ''pass'') [] = Returns (PStr ''{}'')"
    by blast
  from dynamic_execute_returns [OF 0(2), of sample_exec "PStr ''pass''" _ sample_str
         "[(''result'', PInt 4)]" "''{'' @ [CHR 0x27] @ ''result'' @ [CHR 0x27] @ '': 4}''"
         "PInt 4"] 3
  have c: "dynamic_execute sample_exec sample_str (PStr ''pass'') [(''result'', PInt 4)]
             = Returns (PInt 4)"
    by blast
  from dynamic_execute_returns [OF 0(3), of sample_exec "PStr ''pass''" "''no repr''"
         sample_str "[(''result'', PInt 4), (''x'', unprintable)]"] 4
  have d: "dynamic_execute sample_exec sample_str (PStr ''pass'')
             [(''result'', PInt 4), (''x'', unprintable)]
           = Returns (PStr (''Error: '' @ ''no repr''))"
    by blast
  from a b c d show ?thesis by simp
qed

text \<open>The claim as stated fails on a body that raises \<open>SystemExit\<close>: the handler
  catches \<open>Exception\<close> only, and the exception leaves \<open>execute\<close>. It fails on an argument
  mapping with a key named \<open>self\<close> as well: the call is refused before the \<open>try\<close> is
  entered.\<close>

theorem system_exit_propagates_counterexample:
  "dynamic_execute sample_exec sample_str (PStr ''raise SystemExit'') []
     = Propagates (BaseException ''SystemExit'')
   \<and> dynamic_execute sample_exec sample_str (PStr ''pass'') [(''self'', PInt 1)] = Refused"
  by (simp add: dynamic_execute_def sample_exec_def)

end
